theory Spec2Isabelle
  imports Main "HOL-Library.Word"
begin

section \<open>Record model\<close>

text \<open>
  The \<^verbatim>\<open>Location\<close> struct of the repository. The two coordinates are
  \<^verbatim>\<open>float64\<close>; the development never computes with them, it only hands them to
  formatting verbs and to the map library, so the type of floats is the parameter \<open>'f\<close>.
\<close>

record 'f Location =
  Number :: string
  Name :: string
  AltName :: string
  Latitude :: 'f
  Longitude :: 'f
  Comments :: string

text \<open>The global configuration struct \<^verbatim>\<open>c\<close>; times are ticks of the file system clock.\<close>

record config =
  c_in :: string
  c_out :: string
  c_cache :: string
  c_cDate :: nat
  c_debug :: bool
  c_force :: bool

section \<open>Files, documents and the outside world\<close>

datatype RecoveryLevel = Low | Medium | High | Highest

datatype TileProvider = ThunderforestLandscape | ThunderforestOutdoors

datatype 'f LatLng = LatLngFromDegrees 'f 'f

datatype 'f Marker = NewMarker "'f LatLng" "8 word \<times> 8 word \<times> 8 word \<times> 8 word" nat

record 'f Context =
  size_wh :: "nat \<times> nat"
  markers :: "'f Marker list"
  tileProvider :: "TileProvider option"

definition NewContext :: "'f Context" where
  "NewContext = \<lparr>size_wh = (512, 512), markers = [], tileProvider = None\<rparr>"

definition SetSize :: "nat \<Rightarrow> nat \<Rightarrow> 'f Context \<Rightarrow> 'f Context" where
  "SetSize wd ht ctx = ctx\<lparr>size_wh := (wd, ht)\<rparr>"

definition AddMarker :: "'f Marker \<Rightarrow> 'f Context \<Rightarrow> 'f Context" where
  "AddMarker m ctx = ctx\<lparr>markers := markers ctx @ [m]\<rparr>"

definition SetTileProvider :: "TileProvider \<Rightarrow> 'f Context \<Rightarrow> 'f Context" where
  "SetTileProvider t ctx = ctx\<lparr>tileProvider := Some t\<rparr>"

text \<open>
  One drawing call of the page API. The horizontal position of the name in the current
  driver is \<^verbatim>\<open>5+numW+4\<close> with \<^verbatim>\<open>numW\<close> the float width of the number
  string; it is kept symbolic as \<open>XAfterWidth 9 number\<close>.
\<close>

datatype xpos = X int | XAfterWidth int string

datatype draw =
    TransformBegin
  | TransformRotate int int int
  | SetFontSize nat
  | SetTextColor nat nat nat
  | Text xpos int string
  | ImageOptions string int int int int
  | TransformEnd

type_synonym page = "draw list"

text \<open>
  What a file holds: the input table, a code image (the text, recovery level and pixel size
  handed to the encoder), a map image (the context handed to the renderer), or the
  document (its pages).
\<close>

datatype 'f content =
    Csv string
  | QRPng string RecoveryLevel nat
  | MapPng "'f Context"
  | Pdf "page list"

record 'f FileInfo =
  ModTime :: nat
  body :: "'f content"

text \<open>
  The file system: files by path, directories, the paths on which \<^verbatim>\<open>os.Stat\<close> and
  \<^verbatim>\<open>os.Open\<close> fail although something may be there (permission denied), and the
  number of files written so far.
\<close>

record 'f world =
  files :: "string \<Rightarrow> 'f FileInfo option"
  dirs :: "string set"
  denied :: "string set"
  written :: nat

text \<open>
  The collaborators outside the repository, as parameters: the formatting verbs
  \<^verbatim>\<open>%f\<close> and \<^verbatim>\<open>%v\<close> on a float, the float of a decimal literal, the table
  decoder, whether the encoder, the renderer, a file write and the directory creation
  succeed, whether the document library reached the end without an error of its own, the
  code page translator, and the modification time the file system gives to the k-th file
  written.
\<close>

record 'f extern =
  fmt_f :: "'f \<Rightarrow> string"
  fmt_v :: "'f \<Rightarrow> string"
  f64 :: "string \<Rightarrow> 'f"
  UnmarshalFile :: "'f content \<Rightarrow> 'f Location list option"
  qrcode_New_ok :: "string \<Rightarrow> RecoveryLevel \<Rightarrow> bool"
  Render_ok :: "'f Context \<Rightarrow> bool"
  write_ok :: "string \<Rightarrow> bool"
  MkdirAll_ok :: "string \<Rightarrow> bool"
  pdf_ok :: "page list \<Rightarrow> bool"
  tr :: "string \<Rightarrow> string"
  stamp :: "nat \<Rightarrow> nat"

datatype stat_error = ENOENT | EACCES

definition Stat :: "'f world \<Rightarrow> string \<Rightarrow> stat_error + 'f FileInfo" where
  "Stat w p =
     (if p \<in> denied w then Inl EACCES
      else case files w p of None \<Rightarrow> Inl ENOENT | Some fi \<Rightarrow> Inr fi)"

definition Open :: "'f world \<Rightarrow> string \<Rightarrow> stat_error + 'f FileInfo" where
  "Open w p = Stat w p"

definition After :: "nat \<Rightarrow> nat \<Rightarrow> bool" where
  "After t u = (u < t)"

text \<open>Writing a file: refused by the system, or stored with the next time stamp.\<close>

definition WriteFile :: "'f extern \<Rightarrow> 'f world \<Rightarrow> string \<Rightarrow> 'f content \<Rightarrow> 'f world option" where
  "WriteFile e w p b =
     (if write_ok e p
      then Some (w\<lparr>files := (files w)(p \<mapsto> \<lparr>ModTime = stamp e (written w), body = b\<rparr>),
                   written := Suc (written w)\<rparr>)
      else None)"

section \<open>Path construction\<close>

text \<open>
  \<^verbatim>\<open>filepath.Join\<close> on a system whose separator is the slash: leading empty elements
  are dropped, the rest is joined with the separator and cleaned. Cleaning drops empty
  and \<^verbatim>\<open>.\<close> components, lets \<^verbatim>\<open>..\<close> cancel the component before it, and never
  climbs above the root.
\<close>

fun split_sep :: "string \<Rightarrow> string list" where
  "split_sep [] = [[]]"
| "split_sep (ch # cs) =
     (if ch = CHR ''/'' then [] # split_sep cs
      else (case split_sep cs of [] \<Rightarrow> [[ch]] | x # xs \<Rightarrow> (ch # x) # xs))"

fun join_sep :: "string list \<Rightarrow> string" where
  "join_sep [] = []"
| "join_sep [x] = x"
| "join_sep (x # y # ys) = x @ CHR ''/'' # join_sep (y # ys)"

text \<open>The components kept so far are a stack, last component first.\<close>

definition clean_step :: "bool \<Rightarrow> string list \<Rightarrow> string \<Rightarrow> string list" where
  "clean_step rooted st el =
     (if el = [] \<or> el = ''.'' then st
      else if el = ''..'' then
        (case st of
           [] \<Rightarrow> if rooted then [] else [''..'']
         | t # ts \<Rightarrow> if t = ''..'' then (if rooted then st else ''..'' # st) else ts)
      else el # st)"

definition Clean :: "string \<Rightarrow> string" where
  "Clean p =
     (if p = [] then ''.''
      else let rooted = (hd p = CHR ''/'');
               out = join_sep (rev (foldl (clean_step rooted) [] (split_sep p)))
           in if rooted then CHR ''/'' # out
              else if out = [] then ''.'' else out)"

definition Join :: "string \<Rightarrow> string \<Rightarrow> string" where
  "Join a b =
     (if a \<noteq> [] then Clean (a @ CHR ''/'' # b)
      else if b \<noteq> [] then Clean b
      else [])"

section \<open>The artifact cache: current program\<close>

datatype fatal =
    MissingInput
  | OpenFailed
  | ParseFailed
  | StatFailed
  | MkdirFailed
  | QRCreateFailed
  | QRWriteFailed
  | RenderFailed
  | SavePNGFailed
  | OutputFailed

text \<open>
  \<^verbatim>\<open>Location.getQRCode\<close> of the program with the force flag. A result is the path or
  the fatal error that ends the process, with the file system as it is left.
\<close>

definition getQRCode ::
  "'f extern \<Rightarrow> config \<Rightarrow> 'f Location \<Rightarrow> 'f world \<Rightarrow> (fatal + string) \<times> 'f world" where
  "getQRCode e c l w =
     (let path = Join (c_cache c) (Number l @ ''-qrc.png'');
          old = (case Stat w path of
                   Inr fi \<Rightarrow> \<not> After (ModTime fi) (c_cDate c)
                 | Inl err \<Rightarrow> True)
      in if old \<or> c_force c then
           (let url = ''geo:'' @ fmt_f e (Latitude l) @ '','' @ fmt_f e (Longitude l)
            in if \<not> qrcode_New_ok e url High then (Inl QRCreateFailed, w)
               else (case WriteFile e w path (QRPng url High 110) of
                       None \<Rightarrow> (Inl QRWriteFailed, w)
                     | Some w' \<Rightarrow> (Inr path, w')))
         else (Inr path, w))"

text \<open>\<^verbatim>\<open>Location.getMap\<close> of the same program: the force flag is not read here.\<close>

definition map_context :: "'f extern \<Rightarrow> 'f Location \<Rightarrow> 'f Context" where
  "map_context e l =
     (let pos = LatLngFromDegrees (Latitude l) (Longitude l);
          kh = LatLngFromDegrees (f64 e ''19.89830'') (f64 e ''99.81805'')
      in SetTileProvider ThunderforestLandscape
           (AddMarker (NewMarker kh (0, 0, 0xff, 0xff) 32)
              (AddMarker (NewMarker pos (0xff, 0, 0, 0xff) 32)
                 (SetSize 960 770 NewContext))))"

definition getMap ::
  "'f extern \<Rightarrow> config \<Rightarrow> 'f Location \<Rightarrow> 'f world \<Rightarrow> (fatal + string) \<times> 'f world" where
  "getMap e c l w =
     (let path = Join (c_cache c) (Number l @ ''-map.png'');
          old = (case Stat w path of
                   Inr fi \<Rightarrow> \<not> After (ModTime fi) (c_cDate c)
                 | Inl err \<Rightarrow> True)
      in if old then
           (let ctx = map_context e l
            in if \<not> Render_ok e ctx then (Inl RenderFailed, w)
               else (case WriteFile e w path (MapPng ctx) of
                       None \<Rightarrow> (Inl SavePNGFailed, w)
                     | Some w' \<Rightarrow> (Inr path, w')))
         else (Inr path, w))"

section \<open>The page composer and the driver: current program\<close>

definition pWidth :: int where
  "pWidth = 148"

definition pHeight :: int where
  "pHeight = 105"

text \<open>The document under construction is the list of its pages, the open page last.\<close>

definition AddPage :: "page list \<Rightarrow> page list" where
  "AddPage pdf = pdf @ [[]]"

definition draw_on :: "page list \<Rightarrow> draw list \<Rightarrow> page list" where
  "draw_on pdf ops = (if pdf = [] then pdf else butlast pdf @ [last pdf @ ops])"

text \<open>The drawing calls of one iteration of the loop of \<^verbatim>\<open>main\<close>, in order.\<close>

definition compose :: "'f extern \<Rightarrow> 'f Location \<Rightarrow> string \<Rightarrow> string \<Rightarrow> draw list" where
  "compose e loc qrPath smPath =
     [TransformBegin,
      TransformRotate 90 5 (pHeight - 5),
      SetFontSize 40,
      SetTextColor 0 0 0,
      Text (X 5) (pHeight + 5) (Number loc),
      SetFontSize 20,
      Text (XAfterWidth (5 + 4) (Number loc)) (pHeight + 5) (tr e (Name loc)),
      SetFontSize 15,
      SetTextColor 150 150 150,
      Text (X 5) (pHeight + 5 + 7)
        (fmt_f e (Latitude loc) @ '' N, '' @ fmt_f e (Longitude loc) @ '' E''),
      ImageOptions qrPath (pHeight - 27) (pHeight - 11) 0 0,
      TransformEnd,
      ImageOptions smPath 25 5 0 (pHeight - 10)]"

fun main_loop ::
  "'f extern \<Rightarrow> config \<Rightarrow> 'f Location list \<Rightarrow> page list \<Rightarrow> 'f world
     \<Rightarrow> (fatal + page list) \<times> 'f world" where
  "main_loop e c [] pdf w = (Inr pdf, w)"
| "main_loop e c (loc # locations) pdf w =
     (let pdf1 = AddPage pdf in
      case getQRCode e c loc w of
        (Inl err, w1) \<Rightarrow> (Inl err, w1)
      | (Inr qrPath, w1) \<Rightarrow>
          (case getMap e c loc w1 of
             (Inl err, w2) \<Rightarrow> (Inl err, w2)
           | (Inr smPath, w2) \<Rightarrow>
               main_loop e c locations (draw_on pdf1 (compose e loc qrPath smPath)) w2))"

text \<open>
  The document library closes the document before it writes it, and its documentation
  says that a document without a page gets one then, so that the file is valid.
\<close>

definition Close :: "page list \<Rightarrow> page list" where
  "Close pdf = (if pdf = [] then AddPage pdf else pdf)"

definition OutputFileAndClose ::
  "'f extern \<Rightarrow> 'f world \<Rightarrow> string \<Rightarrow> page list \<Rightarrow> (fatal + unit) \<times> 'f world" where
  "OutputFileAndClose e w out pdf =
     (if \<not> pdf_ok e pdf then (Inl OutputFailed, w)
      else (case WriteFile e w out (Pdf (Close pdf)) of
              None \<Rightarrow> (Inl OutputFailed, w)
            | Some w' \<Rightarrow> (Inr (), w')))"

text \<open>
  \<^verbatim>\<open>main\<close> after the flags are parsed into the configuration: a fatal log call ends
  the run with the file system as it is at that point. The log lines and the set-up of
  the document (page format, font, colour, translator) are left out, since no drawing
  call of a page depends on them here; an error that the document library keeps to
  itself until the end is what \<open>pdf_ok\<close> reports.
\<close>

definition main :: "'f extern \<Rightarrow> config \<Rightarrow> 'f world \<Rightarrow> (fatal + unit) \<times> 'f world" where
  "main e c0 w =
     (if c_in c0 = [] then (Inl MissingInput, w)
      else
        let c1 = (if c_out c0 = [] then c0\<lparr>c_out := ''output.pdf''\<rparr> else c0) in
        case Open w (c_in c1) of
          Inl err \<Rightarrow> (Inl OpenFailed, w)
        | Inr f \<Rightarrow>
            (case UnmarshalFile e (body f) of
               None \<Rightarrow> (Inl ParseFailed, w)
             | Some locations \<Rightarrow>
                 (case Stat w (c_in c1) of
                    Inl err \<Rightarrow> (Inl StatFailed, w)
                  | Inr fi \<Rightarrow>
                      let c2 = c1\<lparr>c_cDate := ModTime fi\<rparr> in
                      if \<not> MkdirAll_ok e (c_cache c2) then (Inl MkdirFailed, w)
                      else
                        let w1 = w\<lparr>dirs := insert (c_cache c2) (dirs w)\<rparr> in
                        (case main_loop e c2 locations [] w1 of
                           (Inl err, w2) \<Rightarrow> (Inl err, w2)
                         | (Inr pdf, w2) \<Rightarrow> OutputFileAndClose e w2 (c_out c2) pdf))))"

section \<open>The older program\<close>

text \<open>
  The repository also holds an older driver and an older \<^verbatim>\<open>Location\<close> file, without
  the force flag. Its code image text comes from the verb \<^verbatim>\<open>%s\<close> applied to a float,
  for which the formatter prints the bad-verb form around the \<^verbatim>\<open>%v\<close> rendering.
\<close>

definition bad_verb_s :: "'f extern \<Rightarrow> 'f \<Rightarrow> string" where
  "bad_verb_s e x = ''%!s(float64='' @ fmt_v e x @ '')''"

definition getQRCode_old ::
  "'f extern \<Rightarrow> config \<Rightarrow> 'f Location \<Rightarrow> 'f world \<Rightarrow> (fatal + string) \<times> 'f world" where
  "getQRCode_old e c l w =
     (let path = Join (c_cache c) (Number l @ ''-qrc.png'');
          old = (case Stat w path of
                   Inr fi \<Rightarrow> \<not> After (ModTime fi) (c_cDate c)
                 | Inl err \<Rightarrow> True)
      in if old then
           (let url = ''geo://'' @ bad_verb_s e (Latitude l) @ '','' @ bad_verb_s e (Longitude l)
            in if \<not> qrcode_New_ok e url Medium then (Inl QRCreateFailed, w)
               else (case WriteFile e w path (QRPng url Medium 100) of
                       None \<Rightarrow> (Inl QRWriteFailed, w)
                     | Some w' \<Rightarrow> (Inr path, w')))
         else (Inr path, w))"

definition map_context_old :: "'f extern \<Rightarrow> 'f Location \<Rightarrow> 'f Context" where
  "map_context_old e l =
     (let pos = LatLngFromDegrees (Latitude l) (Longitude l);
          kh = LatLngFromDegrees (f64 e ''19.89830'') (f64 e ''99.81805'')
      in SetTileProvider ThunderforestOutdoors
           (AddMarker (NewMarker kh (0, 0, 0xff, 0xff) 16)
              (AddMarker (NewMarker pos (0xff, 0, 0, 0xff) 16)
                 (SetSize 640 513 NewContext))))"

definition getMap_old ::
  "'f extern \<Rightarrow> config \<Rightarrow> 'f Location \<Rightarrow> 'f world \<Rightarrow> (fatal + string) \<times> 'f world" where
  "getMap_old e c l w =
     (let path = Join (c_cache c) (Number l @ ''-map.png'');
          old = (case Stat w path of
                   Inr fi \<Rightarrow> \<not> After (ModTime fi) (c_cDate c)
                 | Inl err \<Rightarrow> True)
      in if old then
           (let ctx = map_context_old e l
            in if \<not> Render_ok e ctx then (Inl RenderFailed, w)
               else (case WriteFile e w path (MapPng ctx) of
                       None \<Rightarrow> (Inl SavePNGFailed, w)
                     | Some w' \<Rightarrow> (Inr path, w')))
         else (Inr path, w))"

definition compose_old :: "'f extern \<Rightarrow> 'f Location \<Rightarrow> string \<Rightarrow> string \<Rightarrow> draw list" where
  "compose_old e loc qrPath smPath =
     (if Name loc \<noteq> [] then
        [TransformBegin,
         TransformRotate 90 5 (pHeight - 5),
         SetFontSize 40,
         Text (X 5) (pHeight + 5) (Number loc),
         SetFontSize 20,
         Text (X 5) (pHeight + 5 + 7) (tr e (Name loc)),
         ImageOptions qrPath (pHeight - 27) (pHeight - 10) 0 0,
         TransformEnd]
      else [])
     @ [ImageOptions smPath 25 5 0 (pHeight - 10)]"

fun main_loop_old ::
  "'f extern \<Rightarrow> config \<Rightarrow> 'f Location list \<Rightarrow> page list \<Rightarrow> 'f world
     \<Rightarrow> (fatal + page list) \<times> 'f world" where
  "main_loop_old e c [] pdf w = (Inr pdf, w)"
| "main_loop_old e c (loc # locations) pdf w =
     (let pdf1 = AddPage pdf in
      case getQRCode_old e c loc w of
        (Inl err, w1) \<Rightarrow> (Inl err, w1)
      | (Inr qrPath, w1) \<Rightarrow>
          (case getMap_old e c loc w1 of
             (Inl err, w2) \<Rightarrow> (Inl err, w2)
           | (Inr smPath, w2) \<Rightarrow>
               main_loop_old e c locations (draw_on pdf1 (compose_old e loc qrPath smPath)) w2))"

definition main_old :: "'f extern \<Rightarrow> config \<Rightarrow> 'f world \<Rightarrow> (fatal + unit) \<times> 'f world" where
  "main_old e c0 w =
     (if c_in c0 = [] then (Inl MissingInput, w)
      else
        let c1 = (if c_out c0 = [] then c0\<lparr>c_out := ''output.pdf''\<rparr> else c0) in
        case Open w (c_in c1) of
          Inl err \<Rightarrow> (Inl OpenFailed, w)
        | Inr f \<Rightarrow>
            (case UnmarshalFile e (body f) of
               None \<Rightarrow> (Inl ParseFailed, w)
             | Some locations \<Rightarrow>
                 (case Stat w (c_in c1) of
                    Inl err \<Rightarrow> (Inl StatFailed, w)
                  | Inr fi \<Rightarrow>
                      let c2 = c1\<lparr>c_cDate := ModTime fi\<rparr> in
                      if \<not> MkdirAll_ok e (c_cache c2) then (Inl MkdirFailed, w)
                      else
                        let w1 = w\<lparr>dirs := insert (c_cache c2) (dirs w)\<rparr> in
                        (case main_loop_old e c2 locations [] w1 of
                           (Inl err, w2) \<Rightarrow> (Inl err, w2)
                         | (Inr pdf, w2) \<Rightarrow> OutputFileAndClose e w2 (c_out c2) pdf))))"

section \<open>Names for the paths and pages of a record\<close>

text \<open>
  The path expressions of the two cache lookups, the page a record gives in each driver,
  and the output path after the default is filled in.
\<close>

definition qr_path :: "config \<Rightarrow> 'f Location \<Rightarrow> string" where
  "qr_path c l = Join (c_cache c) (Number l @ ''-qrc.png'')"

definition map_path :: "config \<Rightarrow> 'f Location \<Rightarrow> string" where
  "map_path c l = Join (c_cache c) (Number l @ ''-map.png'')"

definition page_of :: "'f extern \<Rightarrow> config \<Rightarrow> 'f Location \<Rightarrow> page" where
  "page_of e c l = compose e l (qr_path c l) (map_path c l)"

definition page_of_old :: "'f extern \<Rightarrow> config \<Rightarrow> 'f Location \<Rightarrow> page" where
  "page_of_old e c l = compose_old e l (qr_path c l) (map_path c l)"

definition out_path :: "config \<Rightarrow> string" where
  "out_path c = (if c_out c = [] then ''output.pdf'' else c_out c)"

section \<open>A concrete run\<close>

text \<open>
  Two rows \<open>A1\<close> and \<open>B2\<close>, floats written as their \<^verbatim>\<open>%f\<close> text, every
  collaborator succeeding, the input last modified at time 10 and new files stamped from
  time 20 on. The second world already holds both images of \<open>A1\<close>, written at
  time 15 with contents of their own.
\<close>

definition ex_locs :: "string Location list" where
  "ex_locs =
     [\<lparr>Number = ''A1'', Name = ''Alpha'', AltName = ''a'', Latitude = ''19.900000'',
       Longitude = ''99.800000'', Comments = ''x''\<rparr>,
      \<lparr>Number = ''B2'', Name = [], AltName = ''b'', Latitude = ''20.100000'',
       Longitude = ''100.000000'', Comments = ''y''\<rparr>]"

definition ex_env :: "string extern" where
  "ex_env =
     \<lparr>fmt_f = (\<lambda>x. x),
      fmt_v = (\<lambda>x. if x = ''19.900000'' then ''19.9''
                   else if x = ''99.800000'' then ''99.8'' else x),
      f64 = (\<lambda>x. x),
      UnmarshalFile = (\<lambda>b. case b of Csv s \<Rightarrow> (if s = ''ok'' then Some ex_locs else None)
                                   | _ \<Rightarrow> None),
      qrcode_New_ok = (\<lambda>u l. True), Render_ok = (\<lambda>ctx. True), write_ok = (\<lambda>p. True),
      MkdirAll_ok = (\<lambda>p. True), pdf_ok = (\<lambda>ps. True), tr = (\<lambda>s. s),
      stamp = (\<lambda>k. 20 + k)\<rparr>"

definition ex_cfg :: config where
  "ex_cfg = \<lparr>c_in = ''in.csv'', c_out = [], c_cache = ''cache'', c_cDate = 0,
             c_debug = False, c_force = False\<rparr>"

definition ex_world :: "string \<Rightarrow> string world" where
  "ex_world s =
     \<lparr>files = [''in.csv'' \<mapsto> \<lparr>ModTime = 10, body = Csv s\<rparr>], dirs = {}, denied = {},
      written = 0\<rparr>"

definition ex_A1 :: "string Location" where
  "ex_A1 = \<lparr>Number = ''A1'', Name = ''Alpha'', AltName = ''a'', Latitude = ''19.900000'',
            Longitude = ''99.800000'', Comments = ''x''\<rparr>"

definition ex_cached :: "string world" where
  "ex_cached =
     \<lparr>files = [''in.csv'' \<mapsto> \<lparr>ModTime = 10, body = Csv ''ok''\<rparr>,
               ''cache/A1-qrc.png'' \<mapsto> \<lparr>ModTime = 15, body = QRPng ''earlier'' Low 1\<rparr>,
               ''cache/A1-map.png'' \<mapsto> \<lparr>ModTime = 15, body = MapPng NewContext\<rparr>],
      dirs = {''cache''}, denied = {}, written = 0\<rparr>"

section \<open>Notions used by the properties\<close>

text \<open>Two records that differ at most in the alternate name and the comment.\<close>

definition differ_only_unused :: "'f Location \<Rightarrow> 'f Location \<Rightarrow> bool" where
  "differ_only_unused a b = (a\<lparr>AltName := AltName b, Comments := Comments b\<rparr> = b)"

text \<open>A file is fresh when it exists and was modified strictly after the baseline.\<close>

definition fresh :: "config \<Rightarrow> 'f world \<Rightarrow> string \<Rightarrow> bool" where
  "fresh c w p = (case files w p of None \<Rightarrow> False | Some fi \<Rightarrow> After (ModTime fi) (c_cDate c))"

definition ex_locs' :: "string Location list" where
  "ex_locs' = map (\<lambda>l. l\<lparr>AltName := ''other'', Comments := ''changed''\<rparr>) ex_locs"

text \<open>The contents that the two image functions write.\<close>

fun is_image :: "'f content \<Rightarrow> bool" where
  "is_image (QRPng t l s) = True"
| "is_image (MapPng ctx) = True"
| "is_image (Csv s) = False"
| "is_image (Pdf ps) = False"

text \<open>The first example world with the code image path of \<open>A1\<close> closed to \<^verbatim>\<open>os.Stat\<close>.\<close>

definition ex_denied :: "string world" where
  "ex_denied = (ex_world ''ok'')\<lparr>denied := {''cache/A1-qrc.png''}\<rparr>"

definition ex_B2 :: "string Location" where
  "ex_B2 = \<lparr>Number = ''B2'', Name = [], AltName = ''b'', Latitude = ''20.100000'',
            Longitude = ''100.000000'', Comments = ''y''\<rparr>"

text \<open>The example collaborators with the write of the code image of \<open>B2\<close> refused.\<close>

definition ex_env_refused :: "string extern" where
  "ex_env_refused = ex_env\<lparr>write_ok := (\<lambda>p. p \<noteq> ''cache/B2-qrc.png'')\<rparr>"

text \<open>
  The two artifact kinds and the path of the cache file of a kind and an identifier, as
  both lookups build it.
\<close>

datatype kind = CodeKind | MapKind

fun suffix_of :: "kind \<Rightarrow> string" where
  "suffix_of CodeKind = ''-qrc.png''"
| "suffix_of MapKind = ''-map.png''"

definition cache_path :: "config \<Rightarrow> kind \<Rightarrow> string \<Rightarrow> string" where
  "cache_path c k ident = Join (c_cache c) (ident @ suffix_of k)"

text \<open>A third row that carries the identifier of the first with other coordinates.\<close>

definition ex_A1_again :: "string Location" where
  "ex_A1_again = \<lparr>Number = ''A1'', Name = ''Again'', AltName = [], Latitude = ''20.500000'',
                  Longitude = ''100.500000'', Comments = []\<rparr>"

text \<open>
  The example collaborators on a table of three rows, the third with the identifier of the
  first, when the file system stamps every new file with the time the input has (10).
\<close>

definition ex_env_same_tick :: "string extern" where
  "ex_env_same_tick =
     ex_env\<lparr>UnmarshalFile := (\<lambda>b. Some [ex_A1, ex_B2, ex_A1_again]), stamp := (\<lambda>k. 10)\<rparr>"

section \<open>Basic facts\<close>

lemma ex_paths:
  "Join ''cache'' ''A1-qrc.png'' = ''cache/A1-qrc.png''"
  "Join ''cache'' ''A1-map.png'' = ''cache/A1-map.png''"
  "Join ''cache'' ''B2-qrc.png'' = ''cache/B2-qrc.png''"
  "Join ''cache'' ''B2-map.png'' = ''cache/B2-map.png''"
  by (simp_all add: Join_def Clean_def clean_step_def)

lemmas ex_defs =
  ex_cfg_def ex_world_def ex_env_def ex_locs_def ex_A1_def ex_cached_def

lemmas run_defs =
  Let_def Open_def Stat_def After_def WriteFile_def AddPage_def draw_on_def pHeight_def
  OutputFileAndClose_def Close_def

lemma draw_on_AddPage: "draw_on (AddPage pdf) ops = pdf @ [ops]"
  by (simp add: draw_on_def AddPage_def)

lemma getQRCode_path: "getQRCode e c l w = (Inr p, w') \<Longrightarrow> p = qr_path c l"
  by (auto simp: getQRCode_def qr_path_def Let_def split: if_splits option.splits)

lemma getMap_path: "getMap e c l w = (Inr p, w') \<Longrightarrow> p = map_path c l"
  by (auto simp: getMap_def map_path_def Let_def split: if_splits option.splits)

lemma getQRCode_old_path: "getQRCode_old e c l w = (Inr p, w') \<Longrightarrow> p = qr_path c l"
  by (auto simp: getQRCode_old_def qr_path_def Let_def split: if_splits option.splits)

lemma getMap_old_path: "getMap_old e c l w = (Inr p, w') \<Longrightarrow> p = map_path c l"
  by (auto simp: getMap_old_def map_path_def Let_def split: if_splits option.splits)

lemma path_cfg [simp]:
  "qr_path (c\<lparr>c_cDate := t\<rparr>) l = qr_path c l"
  "qr_path (c\<lparr>c_out := out\<rparr>) l = qr_path c l"
  "map_path (c\<lparr>c_cDate := t\<rparr>) l = map_path c l"
  "map_path (c\<lparr>c_out := out\<rparr>) l = map_path c l"
  by (simp_all add: qr_path_def map_path_def)

lemma page_cfg [simp]:
  "page_of e (c\<lparr>c_cDate := t\<rparr>) = page_of e c"
  "page_of e (c\<lparr>c_out := out\<rparr>) = page_of e c"
  "page_of_old e (c\<lparr>c_cDate := t\<rparr>) = page_of_old e c"
  "page_of_old e (c\<lparr>c_out := out\<rparr>) = page_of_old e c"
  by (simp_all add: page_of_def page_of_old_def fun_eq_iff)

section \<open>Pages follow the records\<close>

lemma main_loop_pages:
  "main_loop e c locs pdf w = (Inr pdf', w') \<Longrightarrow> pdf' = pdf @ map (page_of e c) locs"
proof (induction locs arbitrary: pdf w)
  case Nil
  then show ?case by simp
next
  case (Cons l ls)
  from Cons.prems obtain p1 w1 where q: "getQRCode e c l w = (Inr p1, w1)"
    by (cases "getQRCode e c l w") (auto simp: Let_def split: sum.splits)
  from Cons.prems q obtain p2 w2 where m: "getMap e c l w1 = (Inr p2, w2)"
    by (cases "getMap e c l w1") (auto simp: Let_def split: sum.splits)
  have p: "p1 = qr_path c l" "p2 = map_path c l"
    using q m by (auto dest: getQRCode_path getMap_path)
  from Cons.prems q m
  have "main_loop e c ls (pdf @ [page_of e c l]) w2 = (Inr pdf', w')"
    by (simp add: Let_def draw_on_AddPage p page_of_def)
  from Cons.IH [OF this] show ?case by simp
qed

lemma main_loop_old_pages:
  "main_loop_old e c locs pdf w = (Inr pdf', w') \<Longrightarrow>
   pdf' = pdf @ map (page_of_old e c) locs"
proof (induction locs arbitrary: pdf w)
  case Nil
  then show ?case by simp
next
  case (Cons l ls)
  from Cons.prems obtain p1 w1 where q: "getQRCode_old e c l w = (Inr p1, w1)"
    by (cases "getQRCode_old e c l w") (auto simp: Let_def split: sum.splits)
  from Cons.prems q obtain p2 w2 where m: "getMap_old e c l w1 = (Inr p2, w2)"
    by (cases "getMap_old e c l w1") (auto simp: Let_def split: sum.splits)
  have p: "p1 = qr_path c l" "p2 = map_path c l"
    using q m by (auto dest: getQRCode_old_path getMap_old_path)
  from Cons.prems q m
  have "main_loop_old e c ls (pdf @ [page_of_old e c l]) w2 = (Inr pdf', w')"
    by (simp add: Let_def draw_on_AddPage p page_of_old_def)
  from Cons.IH [OF this] show ?case by simp
qed

lemma OutputFileAndClose_body:
  "OutputFileAndClose e w out pdf = (Inr u, w') \<Longrightarrow>
   map_option body (files w' out) = Some (Pdf (Close pdf))"
  by (auto simp: OutputFileAndClose_def WriteFile_def split: if_splits option.splits)

lemma Close_nonempty: "pdf \<noteq> [] \<Longrightarrow> Close pdf = pdf"
  by (simp add: Close_def)

lemma Close_empty: "Close [] = [[]]"
  by (simp add: Close_def AddPage_def)

lemma Close_nth: "i < length pdf \<Longrightarrow> Close pdf ! i = pdf ! i"
  by (cases pdf) (simp_all add: Close_def)

lemma main_pages:
  assumes "fst (main e c w) = Inr u"
  shows "\<exists>f locs. Open w (c_in c) = Inr f \<and> UnmarshalFile e (body f) = Some locs \<and>
           map_option body (files (snd (main e c w)) (out_path c)) =
             Some (Pdf (Close (map (page_of e c) locs)))"
proof -
  obtain w' where r: "main e c w = (Inr u, w')"
    using assms by (cases "main e c w") simp
  from r obtain f where f: "Open w (c_in c) = Inr f"
    by (cases "Open w (c_in c)") (auto simp: main_def Let_def split: if_splits)
  from r f obtain locs where l: "UnmarshalFile e (body f) = Some locs"
    by (cases "UnmarshalFile e (body f)") (auto simp: main_def Let_def split: if_splits)
  from r f l obtain fi where s: "Stat w (c_in c) = Inr fi"
    by (cases "Stat w (c_in c)") (auto simp: main_def Let_def split: if_splits)
  define c2 where
    "c2 = (if c_out c = [] then c\<lparr>c_out := ''output.pdf''\<rparr> else c)\<lparr>c_cDate := ModTime fi\<rparr>"
  define w1 where "w1 = w\<lparr>dirs := insert (c_cache c2) (dirs w)\<rparr>"
  from r f l s obtain pdf w2 where
    lp: "main_loop e c2 locs [] w1 = (Inr pdf, w2)" and
    out: "OutputFileAndClose e w2 (c_out c2) pdf = (Inr u, w')"
    by (cases "main_loop e c2 locs [] w1")
       (auto simp: main_def Let_def c2_def w1_def split: if_splits sum.splits)
  have "pdf = map (page_of e c) locs"
    using main_loop_pages [OF lp] by (simp add: c2_def)
  moreover have "c_out c2 = out_path c"
    by (simp add: c2_def out_path_def)
  ultimately show ?thesis
    using f l r OutputFileAndClose_body [OF out] by simp
qed

lemma main_old_pages:
  assumes "fst (main_old e c w) = Inr u"
  shows "\<exists>f locs. Open w (c_in c) = Inr f \<and> UnmarshalFile e (body f) = Some locs \<and>
           map_option body (files (snd (main_old e c w)) (out_path c)) =
             Some (Pdf (Close (map (page_of_old e c) locs)))"
proof -
  obtain w' where r: "main_old e c w = (Inr u, w')"
    using assms by (cases "main_old e c w") simp
  from r obtain f where f: "Open w (c_in c) = Inr f"
    by (cases "Open w (c_in c)") (auto simp: main_old_def Let_def split: if_splits)
  from r f obtain locs where l: "UnmarshalFile e (body f) = Some locs"
    by (cases "UnmarshalFile e (body f)") (auto simp: main_old_def Let_def split: if_splits)
  from r f l obtain fi where s: "Stat w (c_in c) = Inr fi"
    by (cases "Stat w (c_in c)") (auto simp: main_old_def Let_def split: if_splits)
  define c2 where
    "c2 = (if c_out c = [] then c\<lparr>c_out := ''output.pdf''\<rparr> else c)\<lparr>c_cDate := ModTime fi\<rparr>"
  define w1 where "w1 = w\<lparr>dirs := insert (c_cache c2) (dirs w)\<rparr>"
  from r f l s obtain pdf w2 where
    lp: "main_loop_old e c2 locs [] w1 = (Inr pdf, w2)" and
    out: "OutputFileAndClose e w2 (c_out c2) pdf = (Inr u, w')"
    by (cases "main_loop_old e c2 locs [] w1")
       (auto simp: main_old_def Let_def c2_def w1_def split: if_splits sum.splits)
  have "pdf = map (page_of_old e c) locs"
    using main_loop_old_pages [OF lp] by (simp add: c2_def)
  moreover have "c_out c2 = out_path c"
    by (simp add: c2_def out_path_def)
  ultimately show ?thesis
    using f l r OutputFileAndClose_body [OF out] by simp
qed

lemma ex_run: "fst (main ex_env ex_cfg (ex_world ''ok'')) = Inr ()"
  by (simp add: main_def getQRCode_def getMap_def compose_def ex_defs run_defs ex_paths)

lemma ex_run_old: "fst (main_old ex_env ex_cfg (ex_world ''ok'')) = Inr ()"
  by (simp add: main_old_def getQRCode_old_def getMap_old_def compose_old_def ex_defs
      run_defs ex_paths)

lemma ex_input:
  "Open (ex_world s) (c_in ex_cfg) = Inr \<lparr>ModTime = 10, body = Csv s\<rparr>"
  "UnmarshalFile ex_env (Csv ''ok'') = Some ex_locs"
  "out_path ex_cfg = ''output.pdf''"
  by (simp_all add: ex_defs Open_def Stat_def out_path_def)

text \<open>
  C6. When a run of either driver ends well on a table that is not empty, the document it
  wrote has one page for each decoded record, and the page at each position holds the
  drawing calls made with the data of the record at that position (its number, name,
  coordinates and its two image paths): the order of the input is kept. On an empty
  table the document has the one empty page that closing gives it.
\<close>

theorem order_preservation:
  "(fst (main e c w) = Inr () \<longrightarrow>
      (\<exists>f locs pages. Open w (c_in c) = Inr f \<and> UnmarshalFile e (body f) = Some locs \<and>
         map_option body (files (snd (main e c w)) (out_path c)) = Some (Pdf pages) \<and>
         (locs = [] \<longrightarrow> pages = [[]]) \<and>
         (locs \<noteq> [] \<longrightarrow> length pages = length locs) \<and>
         (\<forall>i<length locs. pages ! i =
            [TransformBegin, TransformRotate 90 5 100, SetFontSize 40, SetTextColor 0 0 0,
             Text (X 5) 110 (Number (locs ! i)), SetFontSize 20,
             Text (XAfterWidth 9 (Number (locs ! i))) 110 (tr e (Name (locs ! i))),
             SetFontSize 15, SetTextColor 150 150 150,
             Text (X 5) 117
               (fmt_f e (Latitude (locs ! i)) @ '' N, '' @
                fmt_f e (Longitude (locs ! i)) @ '' E''),
             ImageOptions (Join (c_cache c) (Number (locs ! i) @ ''-qrc.png'')) 78 94 0 0,
             TransformEnd,
             ImageOptions (Join (c_cache c) (Number (locs ! i) @ ''-map.png'')) 25 5 0 95]))) \<and>
   (fst (main_old e c w) = Inr () \<longrightarrow>
      (\<exists>f locs pages. Open w (c_in c) = Inr f \<and> UnmarshalFile e (body f) = Some locs \<and>
         map_option body (files (snd (main_old e c w)) (out_path c)) = Some (Pdf pages) \<and>
         (locs = [] \<longrightarrow> pages = [[]]) \<and>
         (locs \<noteq> [] \<longrightarrow> length pages = length locs) \<and>
         (\<forall>i<length locs. pages ! i =
            (if Name (locs ! i) \<noteq> [] then
               [TransformBegin, TransformRotate 90 5 100, SetFontSize 40,
                Text (X 5) 110 (Number (locs ! i)), SetFontSize 20,
                Text (X 5) 117 (tr e (Name (locs ! i))),
                ImageOptions (Join (c_cache c) (Number (locs ! i) @ ''-qrc.png'')) 78 95 0 0,
                TransformEnd]
             else []) @
            [ImageOptions (Join (c_cache c) (Number (locs ! i) @ ''-map.png'')) 25 5 0 95])))"
proof (intro conjI impI)
  assume "fst (main e c w) = Inr ()"
  from main_pages [OF this] obtain f locs where
    "Open w (c_in c) = Inr f" "UnmarshalFile e (body f) = Some locs"
    "map_option body (files (snd (main e c w)) (out_path c)) =
       Some (Pdf (Close (map (page_of e c) locs)))"
    by blast
  then show "\<exists>f locs pages. Open w (c_in c) = Inr f \<and> UnmarshalFile e (body f) = Some locs \<and>
         map_option body (files (snd (main e c w)) (out_path c)) = Some (Pdf pages) \<and>
         (locs = [] \<longrightarrow> pages = [[]]) \<and>
         (locs \<noteq> [] \<longrightarrow> length pages = length locs) \<and>
         (\<forall>i<length locs. pages ! i =
            [TransformBegin, TransformRotate 90 5 100, SetFontSize 40, SetTextColor 0 0 0,
             Text (X 5) 110 (Number (locs ! i)), SetFontSize 20,
             Text (XAfterWidth 9 (Number (locs ! i))) 110 (tr e (Name (locs ! i))),
             SetFontSize 15, SetTextColor 150 150 150,
             Text (X 5) 117
               (fmt_f e (Latitude (locs ! i)) @ '' N, '' @
                fmt_f e (Longitude (locs ! i)) @ '' E''),
             ImageOptions (Join (c_cache c) (Number (locs ! i) @ ''-qrc.png'')) 78 94 0 0,
             TransformEnd,
             ImageOptions (Join (c_cache c) (Number (locs ! i) @ ''-map.png'')) 25 5 0 95])"
    by (intro exI [of _ f] exI [of _ locs] exI [of _ "Close (map (page_of e c) locs)"])
       (simp add: Close_nth Close_empty Close_nonempty page_of_def compose_def pHeight_def
          qr_path_def map_path_def)
next
  assume "fst (main_old e c w) = Inr ()"
  from main_old_pages [OF this] obtain f locs where
    "Open w (c_in c) = Inr f" "UnmarshalFile e (body f) = Some locs"
    "map_option body (files (snd (main_old e c w)) (out_path c)) =
       Some (Pdf (Close (map (page_of_old e c) locs)))"
    by blast
  then show "\<exists>f locs pages. Open w (c_in c) = Inr f \<and> UnmarshalFile e (body f) = Some locs \<and>
         map_option body (files (snd (main_old e c w)) (out_path c)) = Some (Pdf pages) \<and>
         (locs = [] \<longrightarrow> pages = [[]]) \<and>
         (locs \<noteq> [] \<longrightarrow> length pages = length locs) \<and>
         (\<forall>i<length locs. pages ! i =
            (if Name (locs ! i) \<noteq> [] then
               [TransformBegin, TransformRotate 90 5 100, SetFontSize 40,
                Text (X 5) 110 (Number (locs ! i)), SetFontSize 20,
                Text (X 5) 117 (tr e (Name (locs ! i))),
                ImageOptions (Join (c_cache c) (Number (locs ! i) @ ''-qrc.png'')) 78 95 0 0,
                TransformEnd]
             else []) @
            [ImageOptions (Join (c_cache c) (Number (locs ! i) @ ''-map.png'')) 25 5 0 95])"
    by (intro exI [of _ f] exI [of _ locs] exI [of _ "Close (map (page_of_old e c) locs)"])
       (simp add: Close_nth Close_empty Close_nonempty page_of_old_def compose_old_def
          pHeight_def qr_path_def map_path_def)
qed

theorem order_preservation_witness:
  "fst (main ex_env ex_cfg (ex_world ''ok'')) = Inr () \<and>
   fst (main_old ex_env ex_cfg (ex_world ''ok'')) = Inr () \<and>
   UnmarshalFile ex_env (Csv ''ok'') = Some ex_locs \<and> length ex_locs = 2 \<and>
   (\<exists>pages. map_option body (files (snd (main ex_env ex_cfg (ex_world ''ok''))) ''output.pdf'')
        = Some (Pdf pages) \<and> length pages = 2 \<and>
      pages ! 0 =
        [TransformBegin, TransformRotate 90 5 100, SetFontSize 40, SetTextColor 0 0 0,
         Text (X 5) 110 ''A1'', SetFontSize 20, Text (XAfterWidth 9 ''A1'') 110 ''Alpha'',
         SetFontSize 15, SetTextColor 150 150 150,
         Text (X 5) 117 ''19.900000 N, 99.800000 E'',
         ImageOptions ''cache/A1-qrc.png'' 78 94 0 0, TransformEnd,
         ImageOptions ''cache/A1-map.png'' 25 5 0 95] \<and>
      pages ! 1 =
        [TransformBegin, TransformRotate 90 5 100, SetFontSize 40, SetTextColor 0 0 0,
         Text (X 5) 110 ''B2'', SetFontSize 20, Text (XAfterWidth 9 ''B2'') 110 [],
         SetFontSize 15, SetTextColor 150 150 150,
         Text (X 5) 117 ''20.100000 N, 100.000000 E'',
         ImageOptions ''cache/B2-qrc.png'' 78 94 0 0, TransformEnd,
         ImageOptions ''cache/B2-map.png'' 25 5 0 95]) \<and>
   (\<exists>pages. map_option body
          (files (snd (main_old ex_env ex_cfg (ex_world ''ok''))) ''output.pdf'')
        = Some (Pdf pages) \<and> length pages = 2 \<and>
      pages ! 0 =
        [TransformBegin, TransformRotate 90 5 100, SetFontSize 40,
         Text (X 5) 110 ''A1'', SetFontSize 20, Text (X 5) 117 ''Alpha'',
         ImageOptions ''cache/A1-qrc.png'' 78 95 0 0, TransformEnd,
         ImageOptions ''cache/A1-map.png'' 25 5 0 95] \<and>
      pages ! 1 = [ImageOptions ''cache/B2-map.png'' 25 5 0 95])"
proof -
  have len: "length ex_locs = 2" and ne: "ex_locs \<noteq> []"
    by (simp_all add: ex_locs_def)
  have r: "ex_locs ! 0 = \<lparr>Number = ''A1'', Name = ''Alpha'', AltName = ''a'',
      Latitude = ''19.900000'', Longitude = ''99.800000'', Comments = ''x''\<rparr>"
    "ex_locs ! Suc 0 = \<lparr>Number = ''B2'', Name = [], AltName = ''b'',
      Latitude = ''20.100000'', Longitude = ''100.000000'', Comments = ''y''\<rparr>"
    by (simp_all add: ex_locs_def)
  have e: "tr ex_env = (\<lambda>s. s)" "fmt_f ex_env = (\<lambda>x. x)" "c_cache ex_cfg = ''cache''"
    by (simp_all add: ex_env_def ex_cfg_def)
  have two: "(\<forall>i<2. P i) = (P 0 \<and> P (Suc 0))" for P :: "nat \<Rightarrow> bool"
    by (auto simp: less_Suc_eq numeral_2_eq_2)
  note t = order_preservation [of ex_env ex_cfg "ex_world ''ok''"]
  from t ex_run have 1: "\<exists>pages.
      map_option body (files (snd (main ex_env ex_cfg (ex_world ''ok''))) ''output.pdf'')
        = Some (Pdf pages) \<and> length pages = 2 \<and>
      pages ! 0 =
        [TransformBegin, TransformRotate 90 5 100, SetFontSize 40, SetTextColor 0 0 0,
         Text (X 5) 110 ''A1'', SetFontSize 20, Text (XAfterWidth 9 ''A1'') 110 ''Alpha'',
         SetFontSize 15, SetTextColor 150 150 150,
         Text (X 5) 117 ''19.900000 N, 99.800000 E'',
         ImageOptions ''cache/A1-qrc.png'' 78 94 0 0, TransformEnd,
         ImageOptions ''cache/A1-map.png'' 25 5 0 95] \<and>
      pages ! 1 =
        [TransformBegin, TransformRotate 90 5 100, SetFontSize 40, SetTextColor 0 0 0,
         Text (X 5) 110 ''B2'', SetFontSize 20, Text (XAfterWidth 9 ''B2'') 110 [],
         SetFontSize 15, SetTextColor 150 150 150,
         Text (X 5) 117 ''20.100000 N, 100.000000 E'',
         ImageOptions ''cache/B2-qrc.png'' 78 94 0 0, TransformEnd,
         ImageOptions ''cache/B2-map.png'' 25 5 0 95]"
    by (simp add: ex_input len ne two r e ex_paths)
  from t ex_run_old have 2: "\<exists>pages.
      map_option body (files (snd (main_old ex_env ex_cfg (ex_world ''ok''))) ''output.pdf'')
        = Some (Pdf pages) \<and> length pages = 2 \<and>
      pages ! 0 =
        [TransformBegin, TransformRotate 90 5 100, SetFontSize 40,
         Text (X 5) 110 ''A1'', SetFontSize 20, Text (X 5) 117 ''Alpha'',
         ImageOptions ''cache/A1-qrc.png'' 78 95 0 0, TransformEnd,
         ImageOptions ''cache/A1-map.png'' 25 5 0 95] \<and>
      pages ! 1 = [ImageOptions ''cache/B2-map.png'' 25 5 0 95]"
    by (simp add: ex_input len ne two r e ex_paths)
  from 1 2 ex_run ex_run_old ex_input(2) len show ?thesis
    by simp
qed

text \<open>
  A table without records decodes to no record, and the document of the run has one
  page, not none.
\<close>

theorem order_preservation_counterexample:
  "UnmarshalFile (ex_env\<lparr>UnmarshalFile := (\<lambda>b. Some [])\<rparr>) (Csv ''ok'') = Some [] \<and>
   fst (main (ex_env\<lparr>UnmarshalFile := (\<lambda>b. Some [])\<rparr>) ex_cfg (ex_world ''ok'')) = Inr () \<and>
   map_option body
     (files (snd (main (ex_env\<lparr>UnmarshalFile := (\<lambda>b. Some [])\<rparr>) ex_cfg (ex_world ''ok'')))
        ''output.pdf'') = Some (Pdf [[]]) \<and>
   length [[] :: draw list] = 1"
  by (simp add: main_def ex_defs run_defs)

section \<open>Empty display names\<close>

text \<open>
  C5. In the current driver a run that ends well gives every record, whatever its display
  name, the whole page: the rotated block with the number, the translated name, the
  coordinates and the code image, then the map image. An empty name is drawn as the
  translation of the empty string. In the older driver the page of a record with an
  empty name is the map image alone, and the rotated block (which there has no
  coordinates) is drawn for the other records only.
\<close>

theorem rotated_block_always_drawn:
  "(fst (main e c w) = Inr () \<longrightarrow>
    (\<exists>f locs pages. Open w (c_in c) = Inr f \<and> UnmarshalFile e (body f) = Some locs \<and>
       map_option body (files (snd (main e c w)) (out_path c)) = Some (Pdf pages) \<and>
       (\<forall>i<length locs. pages ! i =
          [TransformBegin, TransformRotate 90 5 100, SetFontSize 40, SetTextColor 0 0 0,
           Text (X 5) 110 (Number (locs ! i)), SetFontSize 20,
           Text (XAfterWidth 9 (Number (locs ! i))) 110 (tr e (Name (locs ! i))),
           SetFontSize 15, SetTextColor 150 150 150,
           Text (X 5) 117
             (fmt_f e (Latitude (locs ! i)) @ '' N, '' @ fmt_f e (Longitude (locs ! i)) @ '' E''),
           ImageOptions (qr_path c (locs ! i)) 78 94 0 0, TransformEnd,
           ImageOptions (map_path c (locs ! i)) 25 5 0 95]))) \<and>
   (fst (main_old e c w) = Inr () \<longrightarrow>
    (\<exists>f locs pages. Open w (c_in c) = Inr f \<and> UnmarshalFile e (body f) = Some locs \<and>
       map_option body (files (snd (main_old e c w)) (out_path c)) = Some (Pdf pages) \<and>
       (\<forall>i<length locs. pages ! i =
          (if Name (locs ! i) \<noteq> [] then
             [TransformBegin, TransformRotate 90 5 100, SetFontSize 40,
              Text (X 5) 110 (Number (locs ! i)), SetFontSize 20,
              Text (X 5) 117 (tr e (Name (locs ! i))),
              ImageOptions (qr_path c (locs ! i)) 78 95 0 0, TransformEnd,
              ImageOptions (map_path c (locs ! i)) 25 5 0 95]
           else [ImageOptions (map_path c (locs ! i)) 25 5 0 95]))))"
proof (intro conjI impI)
  assume "fst (main e c w) = Inr ()"
  from main_pages [OF this] obtain f locs where
    "Open w (c_in c) = Inr f" "UnmarshalFile e (body f) = Some locs"
    "map_option body (files (snd (main e c w)) (out_path c)) =
       Some (Pdf (Close (map (page_of e c) locs)))"
    by blast
  then show "\<exists>f locs pages. Open w (c_in c) = Inr f \<and> UnmarshalFile e (body f) = Some locs \<and>
       map_option body (files (snd (main e c w)) (out_path c)) = Some (Pdf pages) \<and>
       (\<forall>i<length locs. pages ! i =
          [TransformBegin, TransformRotate 90 5 100, SetFontSize 40, SetTextColor 0 0 0,
           Text (X 5) 110 (Number (locs ! i)), SetFontSize 20,
           Text (XAfterWidth 9 (Number (locs ! i))) 110 (tr e (Name (locs ! i))),
           SetFontSize 15, SetTextColor 150 150 150,
           Text (X 5) 117
             (fmt_f e (Latitude (locs ! i)) @ '' N, '' @ fmt_f e (Longitude (locs ! i)) @ '' E''),
           ImageOptions (qr_path c (locs ! i)) 78 94 0 0, TransformEnd,
           ImageOptions (map_path c (locs ! i)) 25 5 0 95])"
    by (intro exI [of _ f] exI [of _ locs] exI [of _ "Close (map (page_of e c) locs)"])
       (simp add: Close_nth page_of_def compose_def pHeight_def)
next
  assume "fst (main_old e c w) = Inr ()"
  from main_old_pages [OF this] obtain f locs where
    "Open w (c_in c) = Inr f" "UnmarshalFile e (body f) = Some locs"
    "map_option body (files (snd (main_old e c w)) (out_path c)) =
       Some (Pdf (Close (map (page_of_old e c) locs)))"
    by blast
  then show "\<exists>f locs pages. Open w (c_in c) = Inr f \<and> UnmarshalFile e (body f) = Some locs \<and>
       map_option body (files (snd (main_old e c w)) (out_path c)) = Some (Pdf pages) \<and>
       (\<forall>i<length locs. pages ! i =
          (if Name (locs ! i) \<noteq> [] then
             [TransformBegin, TransformRotate 90 5 100, SetFontSize 40,
              Text (X 5) 110 (Number (locs ! i)), SetFontSize 20,
              Text (X 5) 117 (tr e (Name (locs ! i))),
              ImageOptions (qr_path c (locs ! i)) 78 95 0 0, TransformEnd,
              ImageOptions (map_path c (locs ! i)) 25 5 0 95]
           else [ImageOptions (map_path c (locs ! i)) 25 5 0 95]))"
    by (intro exI [of _ f] exI [of _ locs] exI [of _ "Close (map (page_of_old e c) locs)"])
       (simp add: Close_nth page_of_old_def compose_old_def pHeight_def)
qed

theorem rotated_block_always_drawn_witness:
  "fst (main ex_env ex_cfg (ex_world ''ok'')) = Inr () \<and> Name (ex_locs ! 1) = [] \<and>
   (\<exists>pages. map_option body (files (snd (main ex_env ex_cfg (ex_world ''ok''))) ''output.pdf'')
        = Some (Pdf pages) \<and>
      pages ! 1 =
        [TransformBegin, TransformRotate 90 5 100, SetFontSize 40, SetTextColor 0 0 0,
         Text (X 5) 110 ''B2'', SetFontSize 20, Text (XAfterWidth 9 ''B2'') 110 [],
         SetFontSize 15, SetTextColor 150 150 150,
         Text (X 5) 117 ''20.100000 N, 100.000000 E'',
         ImageOptions ''cache/B2-qrc.png'' 78 94 0 0, TransformEnd,
         ImageOptions ''cache/B2-map.png'' 25 5 0 95]) \<and>
   fst (main_old ex_env ex_cfg (ex_world ''ok'')) = Inr () \<and>
   (\<exists>pages. map_option body
          (files (snd (main_old ex_env ex_cfg (ex_world ''ok''))) ''output.pdf'')
        = Some (Pdf pages) \<and>
      pages ! 1 = [ImageOptions ''cache/B2-map.png'' 25 5 0 95])"
proof -
  have len: "length ex_locs = 2"
    by (simp add: ex_locs_def)
  have b2: "ex_locs ! 1 = \<lparr>Number = ''B2'', Name = [], AltName = ''b'',
      Latitude = ''20.100000'', Longitude = ''100.000000'', Comments = ''y''\<rparr>"
    by (simp add: ex_locs_def)
  have b2': "ex_locs ! Suc 0 = \<lparr>Number = ''B2'', Name = [], AltName = ''b'',
      Latitude = ''20.100000'', Longitude = ''100.000000'', Comments = ''y''\<rparr>"
    by (simp add: ex_locs_def)
  have p: "qr_path ex_cfg (ex_locs ! 1) = ''cache/B2-qrc.png''"
    "map_path ex_cfg (ex_locs ! 1) = ''cache/B2-map.png''"
    by (simp_all add: qr_path_def map_path_def ex_cfg_def ex_locs_def ex_paths)
  have e: "tr ex_env [] = []" "fmt_f ex_env = (\<lambda>x. x)"
    by (simp_all add: ex_env_def)
  note t = rotated_block_always_drawn [of ex_env ex_cfg "ex_world ''ok''"]
  from t ex_run obtain pages where
    "map_option body (files (snd (main ex_env ex_cfg (ex_world ''ok''))) ''output.pdf'')
        = Some (Pdf pages)"
    "\<forall>i<2. pages ! i =
        [TransformBegin, TransformRotate 90 5 100, SetFontSize 40, SetTextColor 0 0 0,
         Text (X 5) 110 (Number (ex_locs ! i)), SetFontSize 20,
         Text (XAfterWidth 9 (Number (ex_locs ! i))) 110 (tr ex_env (Name (ex_locs ! i))),
         SetFontSize 15, SetTextColor 150 150 150,
         Text (X 5) 117
           (fmt_f ex_env (Latitude (ex_locs ! i)) @ '' N, '' @
            fmt_f ex_env (Longitude (ex_locs ! i)) @ '' E''),
         ImageOptions (qr_path ex_cfg (ex_locs ! i)) 78 94 0 0, TransformEnd,
         ImageOptions (map_path ex_cfg (ex_locs ! i)) 25 5 0 95]"
    by (auto simp: ex_input len)
  moreover from this(2) have "pages ! 1 =
        [TransformBegin, TransformRotate 90 5 100, SetFontSize 40, SetTextColor 0 0 0,
         Text (X 5) 110 ''B2'', SetFontSize 20, Text (XAfterWidth 9 ''B2'') 110 [],
         SetFontSize 15, SetTextColor 150 150 150,
         Text (X 5) 117 ''20.100000 N, 100.000000 E'',
         ImageOptions ''cache/B2-qrc.png'' 78 94 0 0, TransformEnd,
         ImageOptions ''cache/B2-map.png'' 25 5 0 95]"
    using p by (simp add: e b2')
  ultimately have 1: "\<exists>pages.
      map_option body (files (snd (main ex_env ex_cfg (ex_world ''ok''))) ''output.pdf'')
        = Some (Pdf pages) \<and>
      pages ! 1 =
        [TransformBegin, TransformRotate 90 5 100, SetFontSize 40, SetTextColor 0 0 0,
         Text (X 5) 110 ''B2'', SetFontSize 20, Text (XAfterWidth 9 ''B2'') 110 [],
         SetFontSize 15, SetTextColor 150 150 150,
         Text (X 5) 117 ''20.100000 N, 100.000000 E'',
         ImageOptions ''cache/B2-qrc.png'' 78 94 0 0, TransformEnd,
         ImageOptions ''cache/B2-map.png'' 25 5 0 95]"
    by blast
  from t ex_run_old obtain pages' where
    "map_option body (files (snd (main_old ex_env ex_cfg (ex_world ''ok''))) ''output.pdf'')
        = Some (Pdf pages')"
    "\<forall>i<2. pages' ! i =
          (if Name (ex_locs ! i) \<noteq> [] then
             [TransformBegin, TransformRotate 90 5 100, SetFontSize 40,
              Text (X 5) 110 (Number (ex_locs ! i)), SetFontSize 20,
              Text (X 5) 117 (tr ex_env (Name (ex_locs ! i))),
              ImageOptions (qr_path ex_cfg (ex_locs ! i)) 78 95 0 0, TransformEnd,
              ImageOptions (map_path ex_cfg (ex_locs ! i)) 25 5 0 95]
           else [ImageOptions (map_path ex_cfg (ex_locs ! i)) 25 5 0 95])"
    by (auto simp: ex_input len)
  moreover from this(2) have "pages' ! 1 = [ImageOptions ''cache/B2-map.png'' 25 5 0 95]"
    using p by (simp add: b2')
  ultimately have 2: "\<exists>pages.
      map_option body (files (snd (main_old ex_env ex_cfg (ex_world ''ok''))) ''output.pdf'')
        = Some (Pdf pages) \<and>
      pages ! 1 = [ImageOptions ''cache/B2-map.png'' 25 5 0 95]"
    by blast
  from 1 2 ex_run ex_run_old b2 show ?thesis
    by simp
qed

text \<open>
  The older driver draws the rotated block only under a test for a non-empty name: record
  \<open>B2\<close> of the example has none, and its page holds the map image alone.
\<close>

theorem rotated_block_counterexample:
  "Name (ex_locs ! 1) = [] \<and>
   map_option body (files (snd (main_old ex_env ex_cfg (ex_world ''ok''))) ''output.pdf'') =
     Some (Pdf [[TransformBegin, TransformRotate 90 5 100, SetFontSize 40,
                 Text (X 5) 110 ''A1'', SetFontSize 20, Text (X 5) 117 ''Alpha'',
                 ImageOptions ''cache/A1-qrc.png'' 78 95 0 0, TransformEnd,
                 ImageOptions ''cache/A1-map.png'' 25 5 0 95],
                [ImageOptions ''cache/B2-map.png'' 25 5 0 95]])"
  by (simp add: main_old_def getQRCode_old_def getMap_old_def compose_old_def ex_defs
      run_defs ex_paths)

section \<open>A row that does not decode\<close>

text \<open>
  C3. When the decoder rejects the input, the run ends with the parse error and the file
  system exactly as it was: no document, no image, and no cache directory either, since
  the directory is created only after the decoding.
\<close>

theorem malformed_input_aborts:
  "c_in c \<noteq> [] \<Longrightarrow> Open w (c_in c) = Inr f \<Longrightarrow> UnmarshalFile e (body f) = None \<Longrightarrow>
   main e c w = (Inl ParseFailed, w)"
  by (simp add: main_def Let_def)

theorem malformed_input_aborts_witness:
  "c_in ex_cfg \<noteq> [] \<and>
   Open (ex_world ''A1,,,abc,99.8,'') (c_in ex_cfg) = Inr \<lparr>ModTime = 10, body = Csv ''A1,,,abc,99.8,''\<rparr> \<and>
   UnmarshalFile ex_env (Csv ''A1,,,abc,99.8,'') = None \<and>
   main ex_env ex_cfg (ex_world ''A1,,,abc,99.8,'') = (Inl ParseFailed, ex_world ''A1,,,abc,99.8,'')"
proof -
  have 1: "c_in ex_cfg \<noteq> []"
    by (simp add: ex_cfg_def)
  have 2: "Open (ex_world ''A1,,,abc,99.8,'') (c_in ex_cfg) =
      Inr \<lparr>ModTime = 10, body = Csv ''A1,,,abc,99.8,''\<rparr>"
    by (rule ex_input)
  have 3: "UnmarshalFile ex_env (body \<lparr>ModTime = 10, body = Csv ''A1,,,abc,99.8,''\<rparr>) = None"
    by (simp add: ex_env_def)
  from malformed_input_aborts [OF 1 2 3] 1 2 3 show ?thesis
    by simp
qed

text \<open>The cache directory is not there after the aborted run.\<close>

theorem malformed_input_counterexample:
  "fst (main ex_env ex_cfg (ex_world ''A1,,,abc,99.8,'')) = Inl ParseFailed \<and>
   c_cache ex_cfg = ''cache'' \<and>
   ''cache'' \<notin> dirs (snd (main ex_env ex_cfg (ex_world ''A1,,,abc,99.8,'')))"
  by (simp add: main_def ex_defs run_defs)

section \<open>The force flag\<close>

lemma getMap_force: "getMap e (c\<lparr>c_force := b\<rparr>) l w = getMap e c l w"
  by (simp add: getMap_def cong: sum.case_cong)

text \<open>
  C1. \<^verbatim>\<open>getMap\<close> never reads the force flag: it does the same with the flag set
  and with the flag clear. With the flag set and both images of \<open>A1\<close> fresh (written
  at 15, baseline 10), the code image is written anew while the map image is returned as
  it is, the file system unchanged.
\<close>

theorem force_flag_map_not_regenerated:
  "getMap e (c\<lparr>c_force := True\<rparr>) l w = getMap e (c\<lparr>c_force := False\<rparr>) l w \<and>
   getMap ex_env (ex_cfg\<lparr>c_cDate := 10, c_force := True\<rparr>) ex_A1 ex_cached =
     (Inr ''cache/A1-map.png'', ex_cached) \<and>
   fst (getQRCode ex_env (ex_cfg\<lparr>c_cDate := 10, c_force := True\<rparr>) ex_A1 ex_cached) =
     Inr ''cache/A1-qrc.png'' \<and>
   files (snd (getQRCode ex_env (ex_cfg\<lparr>c_cDate := 10, c_force := True\<rparr>) ex_A1 ex_cached))
     ''cache/A1-qrc.png'' =
     Some \<lparr>ModTime = 20, body = QRPng ''geo:19.900000,99.800000'' High 110\<rparr>"
  by (simp add: getMap_force) (simp add: getMap_def getQRCode_def ex_defs run_defs ex_paths)

section \<open>Columns that are never rendered\<close>

lemma differ_only_unusedD:
  assumes "differ_only_unused a b"
  shows "Number a = Number b" "Name a = Name b" "Latitude a = Latitude b"
    "Longitude a = Longitude b"
proof -
  from assms have eq: "a\<lparr>AltName := AltName b, Comments := Comments b\<rparr> = b"
    by (simp add: differ_only_unused_def)
  show "Number a = Number b" using arg_cong [OF eq, of Number] by simp
  show "Name a = Name b" using arg_cong [OF eq, of Name] by simp
  show "Latitude a = Latitude b" using arg_cong [OF eq, of Latitude] by simp
  show "Longitude a = Longitude b" using arg_cong [OF eq, of Longitude] by simp
qed

lemma decoder_irrelevant [simp]:
  "getQRCode (e\<lparr>UnmarshalFile := u\<rparr>) c l w = getQRCode e c l w"
  "getMap (e\<lparr>UnmarshalFile := u\<rparr>) c l w = getMap e c l w"
  "getQRCode_old (e\<lparr>UnmarshalFile := u\<rparr>) c l w = getQRCode_old e c l w"
  "getMap_old (e\<lparr>UnmarshalFile := u\<rparr>) c l w = getMap_old e c l w"
  "compose (e\<lparr>UnmarshalFile := u\<rparr>) l p q = compose e l p q"
  "compose_old (e\<lparr>UnmarshalFile := u\<rparr>) l p q = compose_old e l p q"
  "OutputFileAndClose (e\<lparr>UnmarshalFile := u\<rparr>) w out pdf = OutputFileAndClose e w out pdf"
  by (simp_all add: getQRCode_def getMap_def getQRCode_old_def getMap_old_def compose_def
      compose_old_def OutputFileAndClose_def WriteFile_def map_context_def
      map_context_old_def bad_verb_s_def Let_def cong: if_cong)

lemma main_loop_decoder [simp]:
  "main_loop (e\<lparr>UnmarshalFile := u\<rparr>) c locs pdf w = main_loop e c locs pdf w"
  by (induction locs arbitrary: pdf w) (simp_all cong: prod.case_cong sum.case_cong)

lemma main_loop_old_decoder [simp]:
  "main_loop_old (e\<lparr>UnmarshalFile := u\<rparr>) c locs pdf w = main_loop_old e c locs pdf w"
  by (induction locs arbitrary: pdf w) (simp_all cong: prod.case_cong sum.case_cong)

lemma step_unused:
  assumes "differ_only_unused a b"
  shows "getQRCode e c a w = getQRCode e c b w" "getMap e c a w = getMap e c b w"
    "getQRCode_old e c a w = getQRCode_old e c b w" "getMap_old e c a w = getMap_old e c b w"
    "compose e a p q = compose e b p q" "compose_old e a p q = compose_old e b p q"
  using differ_only_unusedD [OF assms]
  by (simp_all add: getQRCode_def getMap_def getQRCode_old_def getMap_old_def compose_def
      compose_old_def map_context_def map_context_old_def Let_def cong: if_cong)

lemma main_loop_unused:
  "list_all2 differ_only_unused ls ls' \<Longrightarrow> main_loop e c ls pdf w = main_loop e c ls' pdf w"
proof (induction ls ls' arbitrary: pdf w rule: list_all2_induct)
  case Nil
  show ?case by simp
next
  case (Cons a as b bs)
  show ?case
    by (simp add: step_unused [OF Cons.hyps(1)] Cons.IH cong: prod.case_cong sum.case_cong)
qed

lemma main_loop_old_unused:
  "list_all2 differ_only_unused ls ls' \<Longrightarrow>
   main_loop_old e c ls pdf w = main_loop_old e c ls' pdf w"
proof (induction ls ls' arbitrary: pdf w rule: list_all2_induct)
  case Nil
  show ?case by simp
next
  case (Cons a as b bs)
  show ?case
    by (simp add: step_unused [OF Cons.hyps(1)] Cons.IH cong: prod.case_cong sum.case_cong)
qed

text \<open>
  C9. Two decoders whose tables differ at most in the alternate name and comment columns
  give the same run in either driver: the same result and the same file system, so the
  same document and the same images.
\<close>

theorem unused_columns:
  assumes "\<forall>b. rel_option (list_all2 differ_only_unused) (u b) (u' b)"
  shows "main (e\<lparr>UnmarshalFile := u\<rparr>) c w = main (e\<lparr>UnmarshalFile := u'\<rparr>) c w \<and>
         main_old (e\<lparr>UnmarshalFile := u\<rparr>) c w = main_old (e\<lparr>UnmarshalFile := u'\<rparr>) c w"
proof -
  have r: "rel_option (list_all2 differ_only_unused) (u b) (u' b)" for b
    using assms by blast
  have 1: "main (e\<lparr>UnmarshalFile := u\<rparr>) c w = main (e\<lparr>UnmarshalFile := u'\<rparr>) c w"
  proof (cases "Open w (c_in c)")
    case (Inl err)
    then show ?thesis by (simp add: main_def Let_def)
  next
    case (Inr f)
    show ?thesis
    proof (cases "u (body f)")
      case None
      with r [of "body f"] have "u' (body f) = None" by (cases "u' (body f)") simp_all
      with None Inr show ?thesis by (simp add: main_def Let_def)
    next
      case (Some ls)
      with r [of "body f"] obtain ls' where
        s': "u' (body f) = Some ls'" and rel: "list_all2 differ_only_unused ls ls'"
        by (cases "u' (body f)") simp_all
      show ?thesis
        using Inr Some s'
        by (simp add: main_def Let_def main_loop_unused [OF rel]
            cong: sum.case_cong prod.case_cong if_cong)
    qed
  qed
  have 2: "main_old (e\<lparr>UnmarshalFile := u\<rparr>) c w = main_old (e\<lparr>UnmarshalFile := u'\<rparr>) c w"
  proof (cases "Open w (c_in c)")
    case (Inl err)
    then show ?thesis by (simp add: main_old_def Let_def)
  next
    case (Inr f)
    show ?thesis
    proof (cases "u (body f)")
      case None
      with r [of "body f"] have "u' (body f) = None" by (cases "u' (body f)") simp_all
      with None Inr show ?thesis by (simp add: main_old_def Let_def)
    next
      case (Some ls)
      with r [of "body f"] obtain ls' where
        s': "u' (body f) = Some ls'" and rel: "list_all2 differ_only_unused ls ls'"
        by (cases "u' (body f)") simp_all
      show ?thesis
        using Inr Some s'
        by (simp add: main_old_def Let_def main_loop_old_unused [OF rel]
            cong: sum.case_cong prod.case_cong if_cong)
    qed
  qed
  from 1 2 show ?thesis ..
qed

theorem unused_columns_witness:
  "ex_locs' \<noteq> ex_locs \<and> list_all2 differ_only_unused ex_locs ex_locs' \<and>
   fst (main (ex_env\<lparr>UnmarshalFile := (\<lambda>b. Some ex_locs)\<rparr>) ex_cfg (ex_world ''ok'')) = Inr () \<and>
   main (ex_env\<lparr>UnmarshalFile := (\<lambda>b. Some ex_locs)\<rparr>) ex_cfg (ex_world ''ok'') =
   main (ex_env\<lparr>UnmarshalFile := (\<lambda>b. Some ex_locs')\<rparr>) ex_cfg (ex_world ''ok'') \<and>
   main_old (ex_env\<lparr>UnmarshalFile := (\<lambda>b. Some ex_locs)\<rparr>) ex_cfg (ex_world ''ok'') =
   main_old (ex_env\<lparr>UnmarshalFile := (\<lambda>b. Some ex_locs')\<rparr>) ex_cfg (ex_world ''ok'')"
proof -
  have d: "ex_locs' \<noteq> ex_locs"
    by (simp add: ex_locs'_def ex_locs_def)
  have rel: "list_all2 differ_only_unused ex_locs ex_locs'"
    by (simp add: ex_locs'_def ex_locs_def differ_only_unused_def)
  then have h: "\<forall>b::string content. rel_option (list_all2 differ_only_unused)
      ((\<lambda>b. Some ex_locs) b) ((\<lambda>b. Some ex_locs') b)"
    by simp
  have ok: "fst (main (ex_env\<lparr>UnmarshalFile := (\<lambda>b. Some ex_locs)\<rparr>) ex_cfg (ex_world ''ok''))
      = Inr ()"
    by (simp add: main_def getQRCode_def getMap_def compose_def ex_defs run_defs ex_paths)
  from unused_columns [OF h, of ex_env ex_cfg "ex_world ''ok''"] d rel ok show ?thesis
    by simp
qed

section \<open>What a lookup does\<close>

lemma WriteFile_Some:
  "WriteFile e w p b = Some w' \<Longrightarrow>
   files w' = (files w)(p \<mapsto> \<lparr>ModTime = stamp e (written w), body = b\<rparr>) \<and>
   denied w' = denied w \<and> dirs w' = dirs w \<and> written w' = Suc (written w)"
  by (auto simp: WriteFile_def split: if_splits)

lemma Stat_Inr_fresh:
  "(case Stat w p of Inr fi \<Rightarrow> \<not> After (ModTime fi) (c_cDate c) | Inl err \<Rightarrow> True) =
   (\<not> (p \<notin> denied w \<and> fresh c w p))"
  by (auto simp: Stat_def fresh_def split: option.splits)

text \<open>The three ways a lookup of the code image ends, and the same for the map image.\<close>

lemma getQRCode_cases:
  obtains
    (reuse) "getQRCode e c l w = (Inr (qr_path c l), w)" "fresh c w (qr_path c l)"
      "qr_path c l \<notin> denied w" "\<not> c_force c"
  | (regen) w' where "getQRCode e c l w = (Inr (qr_path c l), w')"
      "WriteFile e w (qr_path c l)
         (QRPng (''geo:'' @ fmt_f e (Latitude l) @ '','' @ fmt_f e (Longitude l)) High 110) =
       Some w'"
      "\<not> (qr_path c l \<notin> denied w \<and> fresh c w (qr_path c l)) \<or> c_force c"
  | (fail) err where "getQRCode e c l w = (Inl err, w)"
      "\<not> (qr_path c l \<notin> denied w \<and> fresh c w (qr_path c l)) \<or> c_force c"
proof (cases "(qr_path c l \<notin> denied w \<and> fresh c w (qr_path c l)) \<and> \<not> c_force c")
  case True
  then have "getQRCode e c l w = (Inr (qr_path c l), w)"
    by (simp add: getQRCode_def qr_path_def [symmetric] Stat_Inr_fresh Let_def)
  with True reuse show ?thesis by blast
next
  case stale: False
  let ?url = "''geo:'' @ fmt_f e (Latitude l) @ '','' @ fmt_f e (Longitude l)"
  show ?thesis
  proof (cases "qrcode_New_ok e ?url High")
    case False
    with stale have "getQRCode e c l w = (Inl QRCreateFailed, w)"
      by (simp add: getQRCode_def qr_path_def [symmetric] Stat_Inr_fresh Let_def)
    with stale fail show ?thesis by blast
  next
    case True
    show ?thesis
    proof (cases "WriteFile e w (qr_path c l) (QRPng ?url High 110)")
      case None
      with stale True have "getQRCode e c l w = (Inl QRWriteFailed, w)"
        by (simp add: getQRCode_def qr_path_def [symmetric] Stat_Inr_fresh Let_def)
      with stale fail show ?thesis by blast
    next
      case (Some w')
      with stale True have "getQRCode e c l w = (Inr (qr_path c l), w')"
        by (simp add: getQRCode_def qr_path_def [symmetric] Stat_Inr_fresh Let_def)
      with stale Some regen show ?thesis by blast
    qed
  qed
qed

lemma getMap_cases:
  obtains
    (reuse) "getMap e c l w = (Inr (map_path c l), w)" "fresh c w (map_path c l)"
      "map_path c l \<notin> denied w"
  | (regen) w' where "getMap e c l w = (Inr (map_path c l), w')"
      "WriteFile e w (map_path c l) (MapPng (map_context e l)) = Some w'"
      "\<not> (map_path c l \<notin> denied w \<and> fresh c w (map_path c l))"
  | (fail) err where "getMap e c l w = (Inl err, w)"
      "\<not> (map_path c l \<notin> denied w \<and> fresh c w (map_path c l))"
proof (cases "map_path c l \<notin> denied w \<and> fresh c w (map_path c l)")
  case True
  then have "getMap e c l w = (Inr (map_path c l), w)"
    by (simp add: getMap_def map_path_def [symmetric] Stat_Inr_fresh Let_def)
  with True reuse show ?thesis by blast
next
  case stale: False
  show ?thesis
  proof (cases "Render_ok e (map_context e l)")
    case False
    with stale have "getMap e c l w = (Inl RenderFailed, w)"
      by (simp add: getMap_def map_path_def [symmetric] Stat_Inr_fresh Let_def)
    with stale fail show ?thesis by blast
  next
    case True
    show ?thesis
    proof (cases "WriteFile e w (map_path c l) (MapPng (map_context e l))")
      case None
      with stale True have "getMap e c l w = (Inl SavePNGFailed, w)"
        by (simp add: getMap_def map_path_def [symmetric] Stat_Inr_fresh Let_def)
      with stale fail show ?thesis by blast
    next
      case (Some w')
      with stale True have "getMap e c l w = (Inr (map_path c l), w')"
        by (simp add: getMap_def map_path_def [symmetric] Stat_Inr_fresh Let_def)
      with stale Some regen show ?thesis by blast
    qed
  qed
qed

section \<open>Freshness after a lookup\<close>

lemma WriteFile_fresh:
  assumes "WriteFile e w p b = Some w'" "c_cDate c < stamp e (written w)"
  shows "fresh c w' p" "fresh c w q \<Longrightarrow> fresh c w' q"
  using WriteFile_Some [OF assms(1)] assms(2)
  by (auto simp: fresh_def After_def)

lemma getQRCode_fresh:
  assumes "c_cDate c < stamp e (written w)"
  shows "fst (getQRCode e c l w) = Inr p \<Longrightarrow> fresh c (snd (getQRCode e c l w)) p"
    and "fresh c w q \<Longrightarrow> fresh c (snd (getQRCode e c l w)) q"
  by (rule getQRCode_cases [where e = e and c = c and l = l and w = w];
      auto dest: WriteFile_fresh [OF _ assms])+

lemma getMap_fresh:
  assumes "c_cDate c < stamp e (written w)"
  shows "fst (getMap e c l w) = Inr p \<Longrightarrow> fresh c (snd (getMap e c l w)) p"
    and "fresh c w q \<Longrightarrow> fresh c (snd (getMap e c l w)) q"
  by (rule getMap_cases [where e = e and c = c and l = l and w = w];
      auto dest: WriteFile_fresh [OF _ assms])+

lemma main_loop_fresh:
  assumes "\<forall>k. c_cDate c < stamp e k"
  shows "main_loop e c locs pdf w = (Inr pdf', w') \<Longrightarrow>
    (\<forall>q. fresh c w q \<longrightarrow> fresh c w' q) \<and>
    (\<forall>l\<in>set locs. fresh c w' (qr_path c l) \<and> fresh c w' (map_path c l))"
proof (induction locs arbitrary: pdf w)
  case Nil
  then show ?case by simp
next
  case (Cons l ls)
  have st: "c_cDate c < stamp e k" for k
    using assms by blast
  from Cons.prems obtain p1 w1 where q: "getQRCode e c l w = (Inr p1, w1)"
    by (cases "getQRCode e c l w") (auto simp: Let_def split: sum.splits)
  from Cons.prems q obtain p2 w2 where m: "getMap e c l w1 = (Inr p2, w2)"
    by (cases "getMap e c l w1") (auto simp: Let_def split: sum.splits)
  from Cons.prems q m obtain pdf2 where r: "main_loop e c ls pdf2 w2 = (Inr pdf', w')"
    by (auto simp: Let_def)
  have p: "p1 = qr_path c l" "p2 = map_path c l"
    using q m by (auto dest: getQRCode_path getMap_path)
  have a: "fresh c w1 (qr_path c l)" and a': "fresh c w x \<Longrightarrow> fresh c w1 x" for x
    using getQRCode_fresh [OF st, where w = w and l = l] q p by auto
  have b: "fresh c w2 (map_path c l)" and b': "fresh c w1 x \<Longrightarrow> fresh c w2 x" for x
    using getMap_fresh [OF st, where w = w1 and l = l] m p by auto
  from Cons.IH [OF r] a a' b b' show ?case
    by auto
qed

lemma OutputFileAndClose_fresh:
  assumes "c_cDate c < stamp e (written w)" "fresh c w q"
  shows "fresh c (snd (OutputFileAndClose e w out pdf)) q"
  using assms
  by (cases "WriteFile e w out (Pdf (Close pdf))")
     (auto simp: OutputFileAndClose_def dest: WriteFile_fresh)

lemma loop_cfg [simp]:
  "getQRCode e (c\<lparr>c_out := out\<rparr>) l w = getQRCode e c l w"
  "getMap e (c\<lparr>c_out := out\<rparr>) l w = getMap e c l w"
  by (simp_all add: getQRCode_def getMap_def Let_def cong: if_cong sum.case_cong)

lemma main_loop_out [simp]:
  "main_loop e (c\<lparr>c_out := out\<rparr>) locs pdf w = main_loop e c locs pdf w"
  by (induction locs arbitrary: pdf w) (simp_all cong: prod.case_cong sum.case_cong)

lemma Open_Stat: "Open w p = Inr f \<Longrightarrow> Stat w p = Inr f"
  by (simp add: Open_def)

text \<open>How a run that ends well went: the pieces of \<^verbatim>\<open>main\<close> one by one.\<close>

lemma main_Inr_elim:
  assumes "fst (main e c w) = Inr u"
  obtains f locs pdf w2 where
    "c_in c \<noteq> []" "Open w (c_in c) = Inr f" "UnmarshalFile e (body f) = Some locs"
    "MkdirAll_ok e (c_cache c)"
    "main_loop e (c\<lparr>c_cDate := ModTime f\<rparr>) locs [] (w\<lparr>dirs := insert (c_cache c) (dirs w)\<rparr>)
       = (Inr pdf, w2)"
    "OutputFileAndClose e w2 (out_path c) pdf = main e c w"
proof -
  from assms have i: "c_in c \<noteq> []"
    by (auto simp: main_def)
  from assms obtain f where f: "Open w (c_in c) = Inr f"
    by (cases "Open w (c_in c)") (auto simp: main_def Let_def split: if_splits)
  from assms f obtain locs where l: "UnmarshalFile e (body f) = Some locs"
    by (cases "UnmarshalFile e (body f)") (auto simp: main_def Let_def split: if_splits)
  note s = Open_Stat [OF f]
  from assms f l s have m: "MkdirAll_ok e (c_cache c)"
    by (auto simp: main_def Let_def split: if_splits)
  obtain r w2 where lp: "main_loop e (c\<lparr>c_cDate := ModTime f\<rparr>) locs []
      (w\<lparr>dirs := insert (c_cache c) (dirs w)\<rparr>) = (r, w2)"
    by (cases "main_loop e (c\<lparr>c_cDate := ModTime f\<rparr>) locs []
      (w\<lparr>dirs := insert (c_cache c) (dirs w)\<rparr>)") simp
  have sw: "c\<lparr>c_out := ''output.pdf'', c_cDate := ModTime f\<rparr> =
      c\<lparr>c_cDate := ModTime f, c_out := ''output.pdf''\<rparr>"
    by simp
  from assms f l s m lp obtain pdf where r: "r = Inr pdf"
    by (cases r) (auto simp: main_def Let_def sw split: if_splits)
  from f l s m lp r i have "OutputFileAndClose e w2 (out_path c) pdf = main e c w"
    by (auto simp: main_def Let_def out_path_def sw)
  with i f l m lp r show ?thesis
    using that by blast
qed

text \<open>
  C2. When the file system stamps the file written by a lookup strictly after the
  baseline, the file at the returned path is fresh after the lookup, for the code image
  and for the map image, forced or not. For a whole run whose writes are all stamped
  after the modification time of the input, every image of every record is fresh at the
  end with respect to that time.
\<close>

theorem cache_freshness:
  "(c_cDate c < stamp e (written w) \<longrightarrow> fst (getQRCode e c l w) = Inr p \<longrightarrow>
      fresh c (snd (getQRCode e c l w)) p) \<and>
   (c_cDate c < stamp e (written w) \<longrightarrow> fst (getMap e c l w) = Inr p \<longrightarrow>
      fresh c (snd (getMap e c l w)) p) \<and>
   ((\<forall>k. ModTime f < stamp e k) \<longrightarrow> Open w (c_in c) = Inr f \<longrightarrow>
      UnmarshalFile e (body f) = Some locs \<longrightarrow> fst (main e c w) = Inr () \<longrightarrow>
      (\<forall>r\<in>set locs. fresh (c\<lparr>c_cDate := ModTime f\<rparr>) (snd (main e c w)) (qr_path c r) \<and>
                     fresh (c\<lparr>c_cDate := ModTime f\<rparr>) (snd (main e c w)) (map_path c r)))"
proof (intro conjI impI)
  assume "c_cDate c < stamp e (written w)" "fst (getQRCode e c l w) = Inr p"
  then show "fresh c (snd (getQRCode e c l w)) p"
    by (rule getQRCode_fresh)
next
  assume "c_cDate c < stamp e (written w)" "fst (getMap e c l w) = Inr p"
  then show "fresh c (snd (getMap e c l w)) p"
    by (rule getMap_fresh)
next
  assume st: "\<forall>k. ModTime f < stamp e k" and f: "Open w (c_in c) = Inr f"
    and l: "UnmarshalFile e (body f) = Some locs" and ok: "fst (main e c w) = Inr ()"
  let ?c = "c\<lparr>c_cDate := ModTime f\<rparr>"
  from ok obtain pdf w2 where
    lp: "main_loop e ?c locs [] (w\<lparr>dirs := insert (c_cache c) (dirs w)\<rparr>) = (Inr pdf, w2)"
    and out: "OutputFileAndClose e w2 (out_path c) pdf = main e c w"
    using f l by (elim main_Inr_elim) auto
  have st': "\<forall>k. c_cDate ?c < stamp e k"
    using st by simp
  from main_loop_fresh [OF st' lp]
  have "\<forall>r\<in>set locs. fresh ?c w2 (qr_path c r) \<and> fresh ?c w2 (map_path c r)"
    by simp
  moreover have "fresh ?c w2 q \<Longrightarrow> fresh ?c (snd (main e c w)) q" for q
    using OutputFileAndClose_fresh [of ?c e w2 q "out_path c" pdf] st out by simp
  ultimately show "\<forall>r\<in>set locs. fresh ?c (snd (main e c w)) (qr_path c r) \<and>
      fresh ?c (snd (main e c w)) (map_path c r)"
    by blast
qed

theorem cache_freshness_witness:
  "c_cDate (ex_cfg\<lparr>c_cDate := 10\<rparr>) < stamp ex_env (written (ex_world ''ok'')) \<and>
   fst (getQRCode ex_env (ex_cfg\<lparr>c_cDate := 10\<rparr>) ex_A1 (ex_world ''ok'')) =
     Inr ''cache/A1-qrc.png'' \<and>
   fresh (ex_cfg\<lparr>c_cDate := 10\<rparr>)
     (snd (getQRCode ex_env (ex_cfg\<lparr>c_cDate := 10\<rparr>) ex_A1 (ex_world ''ok'')))
     ''cache/A1-qrc.png'' \<and>
   fst (getMap ex_env (ex_cfg\<lparr>c_cDate := 10\<rparr>) ex_A1 (ex_world ''ok'')) =
     Inr ''cache/A1-map.png'' \<and>
   fresh (ex_cfg\<lparr>c_cDate := 10\<rparr>)
     (snd (getMap ex_env (ex_cfg\<lparr>c_cDate := 10\<rparr>) ex_A1 (ex_world ''ok'')))
     ''cache/A1-map.png'' \<and>
   fst (main ex_env ex_cfg (ex_world ''ok'')) = Inr () \<and>
   fresh (ex_cfg\<lparr>c_cDate := 10\<rparr>) (snd (main ex_env ex_cfg (ex_world ''ok'')))
     ''cache/B2-map.png''"
proof -
  let ?c = "ex_cfg\<lparr>c_cDate := 10\<rparr>"
  have h: "c_cDate ?c < stamp ex_env (written (ex_world ''ok''))"
    by (simp add: ex_defs)
  have q: "fst (getQRCode ex_env ?c ex_A1 (ex_world ''ok'')) = Inr ''cache/A1-qrc.png''"
    by (simp add: getQRCode_def ex_defs run_defs ex_paths)
  have m: "fst (getMap ex_env ?c ex_A1 (ex_world ''ok'')) = Inr ''cache/A1-map.png''"
    by (simp add: getMap_def ex_defs run_defs ex_paths)
  have st: "\<forall>k. ModTime \<lparr>ModTime = 10, body = Csv ''ok''\<rparr> < stamp ex_env k"
    by (simp add: ex_defs)
  have b2: "\<lparr>Number = ''B2'', Name = [], AltName = ''b'', Latitude = ''20.100000'',
       Longitude = ''100.000000'', Comments = ''y''\<rparr> \<in> set ex_locs"
    by (simp add: ex_locs_def)
  have p: "map_path ex_cfg \<lparr>Number = ''B2'', Name = [], AltName = ''b'',
       Latitude = ''20.100000'', Longitude = ''100.000000'', Comments = ''y''\<rparr> =
       ''cache/B2-map.png''"
    by (simp add: map_path_def ex_cfg_def ex_paths)
  note t = cache_freshness [of ?c ex_env "ex_world ''ok''" ex_A1]
  from t [of "''cache/A1-qrc.png''"] h q
  have 1: "fresh ?c (snd (getQRCode ex_env ?c ex_A1 (ex_world ''ok''))) ''cache/A1-qrc.png''"
    by blast
  from t [of "''cache/A1-map.png''"] h m
  have 2: "fresh ?c (snd (getMap ex_env ?c ex_A1 (ex_world ''ok''))) ''cache/A1-map.png''"
    by blast
  from cache_freshness [of ex_cfg ex_env "ex_world ''ok''" ex_A1 "[]"
      "\<lparr>ModTime = 10, body = Csv ''ok''\<rparr>" ex_locs] st ex_input ex_run b2
  have 3: "fresh ?c (snd (main ex_env ex_cfg (ex_world ''ok''))) ''cache/B2-map.png''"
    unfolding p [symmetric] by simp
  from h q m 1 2 3 ex_run show ?thesis
    by blast
qed

text \<open>
  When the file system gives the images the very time at which the input was last
  modified (all at 10: a clock of coarse grain, or an input dated ahead), the run ends
  well without the force flag and leaves images that are not strictly after the baseline.
\<close>

theorem cache_freshness_counterexample:
  "\<not> c_force ex_cfg \<and>
   map_option ModTime (files (ex_world ''ok'') ''in.csv'') = Some 10 \<and>
   fst (main (ex_env\<lparr>stamp := (\<lambda>k. 10)\<rparr>) ex_cfg (ex_world ''ok'')) = Inr () \<and>
   map_option ModTime
     (files (snd (main (ex_env\<lparr>stamp := (\<lambda>k. 10)\<rparr>) ex_cfg (ex_world ''ok'')))
        ''cache/A1-qrc.png'') = Some 10 \<and>
   map_option ModTime
     (files (snd (main (ex_env\<lparr>stamp := (\<lambda>k. 10)\<rparr>) ex_cfg (ex_world ''ok'')))
        ''cache/A1-map.png'') = Some 10 \<and>
   fst (getQRCode (ex_env\<lparr>stamp := (\<lambda>k. 10)\<rparr>) (ex_cfg\<lparr>c_cDate := 10\<rparr>) ex_A1
          (ex_world ''ok'')) = Inr ''cache/A1-qrc.png'' \<and>
   \<not> fresh (ex_cfg\<lparr>c_cDate := 10\<rparr>)
        (snd (getQRCode (ex_env\<lparr>stamp := (\<lambda>k. 10)\<rparr>) (ex_cfg\<lparr>c_cDate := 10\<rparr>) ex_A1
               (ex_world ''ok'')))
        ''cache/A1-qrc.png''"
  by (simp add: main_def getQRCode_def getMap_def compose_def ex_defs run_defs ex_paths
      fresh_def)

section \<open>Errors end the run\<close>

lemma main_loop_append:
  "main_loop e c (xs @ ys) pdf w =
     (case main_loop e c xs pdf w of
        (Inl err, w1) \<Rightarrow> (Inl err, w1)
      | (Inr pdf1, w1) \<Rightarrow> main_loop e c ys pdf1 w1)"
  by (induction xs arbitrary: pdf w) (auto simp: Let_def split: prod.splits sum.splits)

lemma WriteFile_Some_iff: "(\<exists>w'. WriteFile e w p b = Some w') = write_ok e p"
  by (simp add: WriteFile_def)

lemma WriteFile_images:
  "WriteFile e w p b = Some w' \<Longrightarrow> is_image b \<Longrightarrow>
   files w' q = files w q \<or> (\<exists>fi. files w' q = Some fi \<and> is_image (body fi))"
  by (auto dest!: WriteFile_Some)

lemma getQRCode_images:
  "files (snd (getQRCode e c l w)) q = files w q \<or>
   (\<exists>fi. files (snd (getQRCode e c l w)) q = Some fi \<and> is_image (body fi))"
  by (rule getQRCode_cases [where e = e and c = c and l = l and w = w])
     (auto dest: WriteFile_images [where q = q])

lemma getMap_images:
  "files (snd (getMap e c l w)) q = files w q \<or>
   (\<exists>fi. files (snd (getMap e c l w)) q = Some fi \<and> is_image (body fi))"
  by (rule getMap_cases [where e = e and c = c and l = l and w = w])
     (auto dest: WriteFile_images [where q = q])

lemma main_loop_images:
  "files (snd (main_loop e c locs pdf w)) q = files w q \<or>
   (\<exists>fi. files (snd (main_loop e c locs pdf w)) q = Some fi \<and> is_image (body fi))"
proof (induction locs arbitrary: pdf w)
  case Nil
  show ?case by simp
next
  case (Cons l ls)
  obtain r1 w1 where q: "getQRCode e c l w = (r1, w1)"
    by (cases "getQRCode e c l w") simp
  obtain r2 w2 where m: "getMap e c l w1 = (r2, w2)"
    by (cases "getMap e c l w1") simp
  have 1: "files w1 q = files w q \<or> (\<exists>fi. files w1 q = Some fi \<and> is_image (body fi))"
    using getQRCode_images [of e c l w q] q by simp
  have 2: "files w2 q = files w1 q \<or> (\<exists>fi. files w2 q = Some fi \<and> is_image (body fi))"
    using getMap_images [of e c l w1 q] m by simp
  show ?case
  proof (cases r1)
    case (Inl err)
    with q 1 show ?thesis by (simp add: Let_def)
  next
    case r1: (Inr p1)
    show ?thesis
    proof (cases r2)
      case (Inl err)
      with q m r1 1 2 show ?thesis by (auto simp: Let_def)
    next
      case (Inr p2)
      with q m r1 1 2 Cons.IH [of "draw_on (AddPage pdf) (compose e l p1 p2)" w2]
      show ?thesis by (auto simp: Let_def)
    qed
  qed
qed

lemma OutputFileAndClose_Inl:
  "fst (OutputFileAndClose e w out pdf) = Inl err \<Longrightarrow> snd (OutputFileAndClose e w out pdf) = w"
  by (auto simp: OutputFileAndClose_def split: if_splits option.splits)

lemma OutputFileAndClose_Inr:
  "fst (OutputFileAndClose e w out pdf) = Inr u \<Longrightarrow> pdf_ok e pdf \<and> write_ok e out"
  by (auto simp: OutputFileAndClose_def WriteFile_def split: if_splits)

lemma main_Inl_no_document:
  assumes "fst (main e c w) = Inl err"
  shows "files (snd (main e c w)) q = files w q \<or>
    (\<exists>fi. files (snd (main e c w)) q = Some fi \<and> is_image (body fi))"
proof (cases "c_in c \<noteq> [] \<and> (\<exists>f locs. Open w (c_in c) = Inr f \<and>
    UnmarshalFile e (body f) = Some locs) \<and> MkdirAll_ok e (c_cache c)")
  case False
  then have "snd (main e c w) = w"
    by (auto simp: main_def Let_def Open_def split: sum.splits option.splits)
  then show ?thesis by simp
next
  case True
  then obtain f locs where f: "Open w (c_in c) = Inr f"
    and l: "UnmarshalFile e (body f) = Some locs" by blast
  let ?c = "c\<lparr>c_cDate := ModTime f\<rparr>"
  let ?w = "w\<lparr>dirs := insert (c_cache c) (dirs w)\<rparr>"
  have sw: "c\<lparr>c_out := ''output.pdf'', c_cDate := ModTime f\<rparr> =
      c\<lparr>c_cDate := ModTime f, c_out := ''output.pdf''\<rparr>"
    by simp
  obtain r w2 where lp: "main_loop e ?c locs [] ?w = (r, w2)"
    by (cases "main_loop e ?c locs [] ?w") simp
  have im: "files w2 q = files w q \<or> (\<exists>fi. files w2 q = Some fi \<and> is_image (body fi))"
    using main_loop_images [of e ?c locs "[]" ?w q] lp by simp
  show ?thesis
  proof (cases r)
    case (Inl err')
    with True f l lp Open_Stat [OF f] have "snd (main e c w) = w2"
      by (auto simp: main_def Let_def sw)
    with im show ?thesis by simp
  next
    case (Inr pdf)
    with True f l lp Open_Stat [OF f]
    have m: "main e c w = OutputFileAndClose e w2 (out_path c) pdf"
      by (auto simp: main_def Let_def sw out_path_def)
    with assms OutputFileAndClose_Inl [of e w2 "out_path c" pdf err]
    have "snd (main e c w) = w2" by simp
    with im show ?thesis by simp
  qed
qed

lemma main_startup_errors:
  assumes "c_in c = [] \<or> (\<exists>serr. Open w (c_in c) = Inl serr) \<or>
    (\<exists>f. Open w (c_in c) = Inr f \<and> UnmarshalFile e (body f) = None) \<or>
    \<not> MkdirAll_ok e (c_cache c)"
  shows "\<exists>err. main e c w = (Inl err, w)"
  using assms
  by (auto simp: main_def Let_def Open_def split: sum.splits option.splits)

text \<open>
  C4. A failing \<^verbatim>\<open>os.Stat\<close> in a cache lookup is not an error of the run: the image
  is written as for a stale file, and the lookup succeeds when the encoder or renderer
  and the write do. Every other error is fatal at once: a failing encoder, renderer or
  write ends the lookup with the file system untouched; a lookup that fails for some
  record ends the loop there, the later records never looked at; a missing or unreadable
  input, a table that does not decode and a cache directory that cannot be made end the
  run with the file system as it was; a run ends well only when the loop did and the
  document could be built and written; and a run that ends with an error has written no
  document, every file that changed being an image.
\<close>

theorem errors_are_fatal_except_cache_stat:
  "(Stat w (qr_path c l) = Inl serr \<longrightarrow>
      qrcode_New_ok e (''geo:'' @ fmt_f e (Latitude l) @ '','' @ fmt_f e (Longitude l)) High \<longrightarrow>
      write_ok e (qr_path c l) \<longrightarrow> fst (getQRCode e c l w) = Inr (qr_path c l)) \<and>
   (Stat w (map_path c l) = Inl serr \<longrightarrow> Render_ok e (map_context e l) \<longrightarrow>
      write_ok e (map_path c l) \<longrightarrow> fst (getMap e c l w) = Inr (map_path c l)) \<and>
   ((\<not> (qr_path c l \<notin> denied w \<and> fresh c w (qr_path c l)) \<or> c_force c) \<longrightarrow>
      (\<not> qrcode_New_ok e (''geo:'' @ fmt_f e (Latitude l) @ '','' @ fmt_f e (Longitude l)) High \<or>
       \<not> write_ok e (qr_path c l)) \<longrightarrow>
      (\<exists>err. getQRCode e c l w = (Inl err, w))) \<and>
   (\<not> (map_path c l \<notin> denied w \<and> fresh c w (map_path c l)) \<longrightarrow>
      (\<not> Render_ok e (map_context e l) \<or> \<not> write_ok e (map_path c l)) \<longrightarrow>
      (\<exists>err. getMap e c l w = (Inl err, w))) \<and>
   (main_loop e c before pdf w = (Inr pdf1, w1) \<longrightarrow>
      (fst (getQRCode e c l w1) = Inl err \<or>
       fst (getMap e c l (snd (getQRCode e c l w1))) = Inl err \<and>
       (\<exists>p. fst (getQRCode e c l w1) = Inr p)) \<longrightarrow>
      main_loop e c (before @ l # later) pdf w = (Inl err, snd (getQRCode e c l w1))) \<and>
   ((c_in c = [] \<or> (\<exists>serr. Open w (c_in c) = Inl serr) \<or>
     (\<exists>f. Open w (c_in c) = Inr f \<and> UnmarshalFile e (body f) = None) \<or>
     \<not> MkdirAll_ok e (c_cache c)) \<longrightarrow> (\<exists>err. main e c w = (Inl err, w))) \<and>
   (fst (main e c w) = Inr () \<longrightarrow>
      (\<exists>f locs w2. Open w (c_in c) = Inr f \<and> UnmarshalFile e (body f) = Some locs \<and>
         main_loop e (c\<lparr>c_cDate := ModTime f\<rparr>) locs []
           (w\<lparr>dirs := insert (c_cache c) (dirs w)\<rparr>) = (Inr (map (page_of e c) locs), w2) \<and>
         pdf_ok e (map (page_of e c) locs) \<and> write_ok e (out_path c))) \<and>
   (fst (main e c w) = Inl err \<longrightarrow>
      (\<forall>q fi. files (snd (main e c w)) q = Some fi \<longrightarrow>
         files w q = Some fi \<or> is_image (body fi)))"
proof (intro conjI impI)
  let ?url = "''geo:'' @ fmt_f e (Latitude l) @ '','' @ fmt_f e (Longitude l)"
  {
    assume "Stat w (qr_path c l) = Inl serr" "qrcode_New_ok e ?url High"
      "write_ok e (qr_path c l)"
    then show "fst (getQRCode e c l w) = Inr (qr_path c l)"
      by (simp add: getQRCode_def qr_path_def [symmetric] WriteFile_def Let_def)
  next
    assume "Stat w (map_path c l) = Inl serr" "Render_ok e (map_context e l)"
      "write_ok e (map_path c l)"
    then show "fst (getMap e c l w) = Inr (map_path c l)"
      by (simp add: getMap_def map_path_def [symmetric] WriteFile_def Let_def)
  next
    assume "\<not> (qr_path c l \<notin> denied w \<and> fresh c w (qr_path c l)) \<or> c_force c"
      "\<not> qrcode_New_ok e ?url High \<or> \<not> write_ok e (qr_path c l)"
    then show "\<exists>err. getQRCode e c l w = (Inl err, w)"
      by (rule_tac getQRCode_cases [where e = e and c = c and l = l and w = w])
         (auto simp: WriteFile_def getQRCode_def qr_path_def [symmetric] Stat_Inr_fresh Let_def)
  next
    assume "\<not> (map_path c l \<notin> denied w \<and> fresh c w (map_path c l))"
      "\<not> Render_ok e (map_context e l) \<or> \<not> write_ok e (map_path c l)"
    then show "\<exists>err. getMap e c l w = (Inl err, w)"
      by (rule_tac getMap_cases [where e = e and c = c and l = l and w = w])
         (auto simp: WriteFile_def getMap_def map_path_def [symmetric] Stat_Inr_fresh Let_def)
  next
    assume lp: "main_loop e c before pdf w = (Inr pdf1, w1)"
      and bad: "fst (getQRCode e c l w1) = Inl err \<or>
        fst (getMap e c l (snd (getQRCode e c l w1))) = Inl err \<and>
        (\<exists>p. fst (getQRCode e c l w1) = Inr p)"
    have m: "fst (getMap e c l x) = Inl err \<Longrightarrow> getMap e c l x = (Inl err, x)" for x
      by (rule getMap_cases [where e = e and c = c and l = l and w = x]) auto
    from bad have "main_loop e c (l # later) pdf1 w1 = (Inl err, snd (getQRCode e c l w1))"
      by (cases "getQRCode e c l w1") (auto simp: Let_def dest: m)
    with lp show "main_loop e c (before @ l # later) pdf w =
        (Inl err, snd (getQRCode e c l w1))"
      by (simp add: main_loop_append)
  next
    assume "c_in c = [] \<or> (\<exists>serr. Open w (c_in c) = Inl serr) \<or>
      (\<exists>f. Open w (c_in c) = Inr f \<and> UnmarshalFile e (body f) = None) \<or>
      \<not> MkdirAll_ok e (c_cache c)"
    then show "\<exists>err. main e c w = (Inl err, w)"
      by (rule main_startup_errors)
  next
    assume ok: "fst (main e c w) = Inr ()"
    then obtain f locs pdf w2 where f: "Open w (c_in c) = Inr f"
      and l: "UnmarshalFile e (body f) = Some locs"
      and lp: "main_loop e (c\<lparr>c_cDate := ModTime f\<rparr>) locs []
        (w\<lparr>dirs := insert (c_cache c) (dirs w)\<rparr>) = (Inr pdf, w2)"
      and out: "OutputFileAndClose e w2 (out_path c) pdf = main e c w"
      by (elim main_Inr_elim) blast
    have p: "pdf = map (page_of e c) locs"
      using main_loop_pages [OF lp] by simp
    from OutputFileAndClose_Inr [of e w2 "out_path c" pdf] out ok
    have "pdf_ok e pdf \<and> write_ok e (out_path c)" by simp
    with f l lp p show "\<exists>f locs w2. Open w (c_in c) = Inr f \<and>
        UnmarshalFile e (body f) = Some locs \<and>
        main_loop e (c\<lparr>c_cDate := ModTime f\<rparr>) locs []
          (w\<lparr>dirs := insert (c_cache c) (dirs w)\<rparr>) = (Inr (map (page_of e c) locs), w2) \<and>
        pdf_ok e (map (page_of e c) locs) \<and> write_ok e (out_path c)"
      by blast
  next
    assume bad: "fst (main e c w) = Inl err"
    show "\<forall>q fi. files (snd (main e c w)) q = Some fi \<longrightarrow>
        files w q = Some fi \<or> is_image (body fi)"
      using main_Inl_no_document [OF bad] by (metis option.inject)
  }
qed

theorem errors_are_fatal_except_cache_stat_witness:
  "Stat ex_denied (qr_path ex_cfg ex_A1) = Inl EACCES \<and>
   fst (getQRCode ex_env ex_cfg ex_A1 ex_denied) = Inr ''cache/A1-qrc.png'' \<and>
   \<not> write_ok ex_env_refused (qr_path ex_cfg ex_B2) \<and>
   (\<exists>err. getQRCode ex_env_refused ex_cfg ex_B2 (ex_world ''ok'') = (Inl err, ex_world ''ok'')) \<and>
   fst (main_loop ex_env_refused ex_cfg [ex_A1] [] (ex_world ''ok'')) =
     Inr [page_of ex_env_refused ex_cfg ex_A1] \<and>
   main_loop ex_env_refused ex_cfg ([ex_A1] @ ex_B2 # [ex_A1]) [] (ex_world ''ok'') =
     (Inl QRWriteFailed, snd (main_loop ex_env_refused ex_cfg [ex_A1] [] (ex_world ''ok''))) \<and>
   fst (main ex_env_refused ex_cfg (ex_world ''ok'')) = Inl QRWriteFailed \<and>
   files (snd (main ex_env_refused ex_cfg (ex_world ''ok''))) ''output.pdf'' = None \<and>
   (\<exists>fi. files (snd (main ex_env_refused ex_cfg (ex_world ''ok''))) ''cache/A1-qrc.png'' =
      Some fi \<and> is_image (body fi)) \<and>
   (\<exists>err. main ex_env ex_cfg (ex_world ''A1,,,abc,99.8,'') =
      (Inl err, ex_world ''A1,,,abc,99.8,'')) \<and>
   Stat (ex_world ''ok'') (map_path ex_cfg ex_A1) = Inl ENOENT \<and>
   fst (getMap ex_env ex_cfg ex_A1 (ex_world ''ok'')) = Inr ''cache/A1-map.png'' \<and>
   (\<exists>err. getMap (ex_env\<lparr>Render_ok := (\<lambda>ctx. False)\<rparr>) ex_cfg ex_A1 (ex_world ''ok'') =
      (Inl err, ex_world ''ok'')) \<and>
   fst (main ex_env ex_cfg (ex_world ''ok'')) = Inr () \<and>
   write_ok ex_env (out_path ex_cfg) \<and> pdf_ok ex_env (map (page_of ex_env ex_cfg) ex_locs)"
proof -
  let ?w = "ex_world ''ok''"
  let ?w1 = "snd (main_loop ex_env_refused ex_cfg [ex_A1] [] ?w)"
  have pa: "qr_path ex_cfg ex_A1 = ''cache/A1-qrc.png''"
    and pb: "qr_path ex_cfg ex_B2 = ''cache/B2-qrc.png''"
    by (simp_all add: qr_path_def ex_defs ex_B2_def ex_paths)
  have s: "Stat ex_denied (qr_path ex_cfg ex_A1) = Inl EACCES"
    by (simp add: pa Stat_def ex_denied_def)
  have e1: "qrcode_New_ok ex_env
      (''geo:'' @ fmt_f ex_env (Latitude ex_A1) @ '','' @ fmt_f ex_env (Longitude ex_A1)) High"
    "write_ok ex_env (qr_path ex_cfg ex_A1)"
    by (simp_all add: ex_env_def)
  note t1 = errors_are_fatal_except_cache_stat [of ex_denied ex_cfg ex_A1 EACCES ex_env]
  from t1 s e1 have 1: "fst (getQRCode ex_env ex_cfg ex_A1 ex_denied) = Inr ''cache/A1-qrc.png''"
    by (simp add: pa)
  have nw: "\<not> write_ok ex_env_refused (qr_path ex_cfg ex_B2)"
    by (simp add: pb ex_env_refused_def)
  have stale: "\<not> (qr_path ex_cfg ex_B2 \<notin> denied ?w \<and> fresh ex_cfg ?w (qr_path ex_cfg ex_B2))"
    unfolding pb by (simp add: fresh_def ex_world_def)
  note t2 = errors_are_fatal_except_cache_stat [of ?w ex_cfg ex_B2 _ ex_env_refused]
  from t2 nw stale
  have 2: "\<exists>err. getQRCode ex_env_refused ex_cfg ex_B2 ?w = (Inl err, ?w)"
    by blast
  have lp: "fst (main_loop ex_env_refused ex_cfg [ex_A1] [] ?w) =
      Inr [page_of ex_env_refused ex_cfg ex_A1]"
    by (simp add: getQRCode_def getMap_def page_of_def qr_path_def map_path_def
        ex_env_refused_def ex_defs run_defs ex_paths)
  then have lp': "main_loop ex_env_refused ex_cfg [ex_A1] [] ?w =
      (Inr [page_of ex_env_refused ex_cfg ex_A1], ?w1)"
    by (simp add: prod_eq_iff)
  have q: "getQRCode ex_env_refused ex_cfg ex_B2 ?w1 = (Inl QRWriteFailed, ?w1)"
    by (simp add: getQRCode_def getMap_def ex_B2_def ex_env_refused_def ex_defs run_defs
        ex_paths)
  from errors_are_fatal_except_cache_stat [where w = ?w and c = ex_cfg and l = ex_B2
      and e = ex_env_refused and before = "[ex_A1]" and pdf = "[]"
      and ?pdf1.0 = "[page_of ex_env_refused ex_cfg ex_A1]" and ?w1.0 = ?w1
      and err = QRWriteFailed and later = "[ex_A1]"] lp' q
  have 3: "main_loop ex_env_refused ex_cfg ([ex_A1] @ ex_B2 # [ex_A1]) [] ?w =
      (Inl QRWriteFailed, ?w1)"
    by simp
  have 4: "fst (main ex_env_refused ex_cfg ?w) = Inl QRWriteFailed"
    "files (snd (main ex_env_refused ex_cfg ?w)) ''output.pdf'' = None"
    by (simp_all add: main_def getQRCode_def getMap_def compose_def ex_env_refused_def
        ex_defs run_defs ex_paths)
  have bad: "\<exists>f. Open (ex_world ''A1,,,abc,99.8,'') (c_in ex_cfg) = Inr f \<and>
      UnmarshalFile ex_env (body f) = None"
    by (simp add: ex_input) (simp add: ex_env_def)
  from errors_are_fatal_except_cache_stat [of "ex_world ''A1,,,abc,99.8,''" ex_cfg _ _ ex_env]
    bad
  have 5: "\<exists>err. main ex_env ex_cfg (ex_world ''A1,,,abc,99.8,'') =
      (Inl err, ex_world ''A1,,,abc,99.8,'')"
    by blast
  have pm: "map_path ex_cfg ex_A1 = ''cache/A1-map.png''"
    by (simp add: map_path_def ex_defs ex_paths)
  have sm: "Stat ?w (map_path ex_cfg ex_A1) = Inl ENOENT"
    unfolding pm by (simp add: Stat_def ex_world_def)
  have e2: "Render_ok ex_env (map_context ex_env ex_A1)" "write_ok ex_env (map_path ex_cfg ex_A1)"
    by (simp_all add: ex_env_def)
  from errors_are_fatal_except_cache_stat [where w = ?w and c = ex_cfg and l = ex_A1
      and serr = ENOENT and e = ex_env] sm e2
  have 6: "fst (getMap ex_env ex_cfg ex_A1 ?w) = Inr ''cache/A1-map.png''"
    by (simp add: pm)
  let ?e = "ex_env\<lparr>Render_ok := (\<lambda>ctx. False)\<rparr>"
  have stale_m: "\<not> (map_path ex_cfg ex_A1 \<notin> denied ?w \<and> fresh ex_cfg ?w (map_path ex_cfg ex_A1))"
    unfolding pm by (simp add: fresh_def ex_world_def)
  have nr: "\<not> Render_ok ?e (map_context ?e ex_A1)"
    by simp
  from errors_are_fatal_except_cache_stat [where w = ?w and c = ex_cfg and l = ex_A1
      and e = ?e] stale_m nr
  have 7: "\<exists>err. getMap ?e ex_cfg ex_A1 ?w = (Inl err, ?w)"
    by blast
  from errors_are_fatal_except_cache_stat [where w = ?w and c = ex_cfg and e = ex_env] ex_run
  have 8: "write_ok ex_env (out_path ex_cfg) \<and> pdf_ok ex_env (map (page_of ex_env ex_cfg) ex_locs)"
    by (auto simp: ex_input)
  have f: "files (snd (main ex_env_refused ex_cfg ?w)) ''cache/A1-qrc.png'' =
      Some \<lparr>ModTime = 20, body = QRPng ''geo:19.900000,99.800000'' High 110\<rparr>"
    by (simp add: main_def getQRCode_def getMap_def compose_def ex_env_refused_def
        ex_defs run_defs ex_paths)
  have n: "files ?w ''cache/A1-qrc.png'' = None"
    by (simp add: ex_world_def)
  from errors_are_fatal_except_cache_stat [where w = ?w and c = ex_cfg
      and e = ex_env_refused and err = QRWriteFailed] 4(1)
  have "\<forall>q fi. files (snd (main ex_env_refused ex_cfg ?w)) q = Some fi \<longrightarrow>
      files ?w q = Some fi \<or> is_image (body fi)"
    by blast
  with f n
  have "is_image (body \<lparr>ModTime = 20, body = QRPng ''geo:19.900000,99.800000'' High 110\<rparr>)"
    by simp
  with f have 9: "\<exists>fi. files (snd (main ex_env_refused ex_cfg ?w)) ''cache/A1-qrc.png'' =
      Some fi \<and> is_image (body fi)"
    by blast
  from s 1 nw 2 lp 3 4 5 sm 6 7 8 9 ex_run show ?thesis
    by blast
qed

text \<open>
  The run on the world where \<^verbatim>\<open>os.Stat\<close> fails with a permission error on the code
  image of \<open>A1\<close>, and with a missing file on that of \<open>B2\<close>, ends well.
\<close>

theorem stat_failure_counterexample:
  "Stat ex_denied ''cache/A1-qrc.png'' = Inl EACCES \<and>
   Stat ex_denied ''cache/B2-qrc.png'' = Inl ENOENT \<and>
   fst (main ex_env ex_cfg ex_denied) = Inr () \<and>
   map_option body (files (snd (main ex_env ex_cfg ex_denied)) ''cache/A1-qrc.png'') =
     Some (QRPng ''geo:19.900000,99.800000'' High 110)"
  by (simp add: main_def getQRCode_def getMap_def compose_def ex_denied_def ex_defs run_defs
      ex_paths)

section \<open>Cache paths\<close>

lemma split_sep_nonempty [simp]: "split_sep p \<noteq> []"
  by (induction p) (auto split: list.splits)

lemma split_sep_no_slash: "CHR ''/'' \<notin> set t \<Longrightarrow> split_sep t = [t]"
  by (induction t) auto

lemma split_sep_slash: "split_sep (a @ CHR ''/'' # b) = split_sep a @ split_sep b"
proof (induction a)
  case Nil
  show ?case by simp
next
  case (Cons ch cs)
  show ?case
  proof (cases "split_sep cs")
    case Nil
    then show ?thesis by simp
  next
    case (Cons x xs)
    with Cons.IH show ?thesis by simp
  qed
qed

lemma split_sep_snoc:
  "CHR ''/'' \<notin> set s \<Longrightarrow>
   split_sep (a @ s) = butlast (split_sep a) @ [last (split_sep a) @ s]"
proof (induction a)
  case Nil
  then show ?case by (simp add: split_sep_no_slash)
next
  case (Cons ch cs)
  show ?case
  proof (cases "split_sep cs")
    case Nil
    then show ?thesis by simp
  next
    case c: (Cons x xs)
    show ?thesis
    proof (cases xs)
      case Nil
      with c Cons show ?thesis by simp
    next
      case (Cons y ys)
      with c Cons.IH [OF Cons.prems] show ?thesis by simp
    qed
  qed
qed

lemma join_sep_snoc:
  "join_sep (ys @ [t]) = (if ys = [] then t else join_sep ys @ CHR ''/'' # t)"
  by (induction ys rule: join_sep.induct) auto

text \<open>A last component that is a plain name is kept as it is, after a prefix of its own.\<close>

lemma Clean_snoc:
  assumes "split_sep p = xs @ [t]" "t \<noteq> []" "t \<noteq> ''.''" "t \<noteq> ''..''"
  shows "Clean p =
    (if hd p = CHR ''/'' then ''/'' else []) @
    (if foldl (clean_step (hd p = CHR ''/'')) [] xs = [] then []
     else join_sep (rev (foldl (clean_step (hd p = CHR ''/'')) [] xs)) @ ''/'') @ t"
proof -
  have p: "p \<noteq> []"
    using assms(1,2) by (cases p) auto
  have step: "clean_step r s t = t # s" for r s
    using assms(2-4) by (simp add: clean_step_def)
  show ?thesis
    using p assms(2) by (simp add: Clean_def assms(1) step join_sep_snoc Let_def)
qed

lemma Join_plain:
  "\<exists>pre. \<forall>t. CHR ''/'' \<notin> set t \<and> t \<noteq> [] \<and> t \<noteq> ''.'' \<and> t \<noteq> ''..'' \<longrightarrow> Join a t = pre @ t"
proof (cases "a = []")
  case True
  have "Join a t = [] @ t" if "CHR ''/'' \<notin> set t" "t \<noteq> []" "t \<noteq> ''.''" "t \<noteq> ''..''" for t
  proof -
    have "split_sep t = [] @ [t]"
      using that(1) by (simp add: split_sep_no_slash)
    from Clean_snoc [OF this that(2-4)] that(1,2) True show ?thesis
      by (cases t) (auto simp: Join_def)
  qed
  then show ?thesis by blast
next
  case False
  let ?r = "hd a = CHR ''/''"
  let ?pre = "(if ?r then ''/'' else []) @
    (if foldl (clean_step ?r) [] (split_sep a) = [] then []
     else join_sep (rev (foldl (clean_step ?r) [] (split_sep a))) @ ''/'')"
  have "Join a t = ?pre @ t" if "CHR ''/'' \<notin> set t" "t \<noteq> []" "t \<noteq> ''.''" "t \<noteq> ''..''" for t
  proof -
    have "split_sep (a @ CHR ''/'' # t) = split_sep a @ [t]"
      using that(1) by (simp add: split_sep_slash split_sep_no_slash)
    from Clean_snoc [OF this that(2-4)] False show ?thesis
      by (simp add: Join_def)
  qed
  then show ?thesis by blast
qed

lemma Join_ends:
  assumes "CHR ''/'' \<notin> set s" "2 < length s"
  shows "\<exists>pre. Join a (b @ s) = pre @ s"
proof -
  let ?t = "last (split_sep b) @ s"
  have t: "?t \<noteq> []" "?t \<noteq> ''.''" "?t \<noteq> ''..''"
    using assms(2) by (auto simp: append_eq_Cons_conv)
  have b: "split_sep (b @ s) = butlast (split_sep b) @ [?t]"
    using assms(1) by (rule split_sep_snoc)
  show ?thesis
  proof (cases "a = []")
    case True
    have "b @ s \<noteq> []" using assms(2) by auto
    with True Clean_snoc [OF b t] show ?thesis
      by (simp add: Join_def)
  next
    case False
    have "split_sep (a @ CHR ''/'' # b @ s) = (split_sep a @ butlast (split_sep b)) @ [?t]"
      by (simp add: split_sep_slash b)
    from Clean_snoc [OF this t] False show ?thesis
      by (simp add: Join_def)
  qed
qed

lemma suffix_of_facts [simp]:
  "CHR ''/'' \<notin> set (suffix_of k)" "length (suffix_of k) = 8"
  "(suffix_of k = suffix_of k') = (k = k')"
  by (cases k; cases k'; simp)+

lemma plain_ident:
  "CHR ''/'' \<notin> set a \<Longrightarrow>
   CHR ''/'' \<notin> set (a @ suffix_of k) \<and> a @ suffix_of k \<noteq> [] \<and> a @ suffix_of k \<noteq> ''.'' \<and>
   a @ suffix_of k \<noteq> ''..''"
  by (cases k) (auto simp: append_eq_Cons_conv)

lemma cache_path_plain_inj:
  assumes "CHR ''/'' \<notin> set a" "CHR ''/'' \<notin> set b" "cache_path c k a = cache_path c k' b"
  shows "a = b \<and> k = k'"
proof -
  obtain pre where pre: "\<And>t. CHR ''/'' \<notin> set t \<Longrightarrow> t \<noteq> [] \<Longrightarrow> t \<noteq> ''.'' \<Longrightarrow> t \<noteq> ''..'' \<Longrightarrow>
      Join (c_cache c) t = pre @ t"
    using Join_plain [of "c_cache c"] by blast
  from pre plain_ident [OF assms(1), of k] plain_ident [OF assms(2), of k'] assms(3)
  have "a @ suffix_of k = b @ suffix_of k'"
    by (simp add: cache_path_def)
  then show ?thesis
    by (simp add: append_eq_append_conv)
qed

lemma cache_path_kinds: "cache_path c CodeKind a \<noteq> cache_path c MapKind b"
proof
  assume eq: "cache_path c CodeKind a = cache_path c MapKind b"
  obtain p1 where 1: "Join (c_cache c) (a @ suffix_of CodeKind) = p1 @ suffix_of CodeKind"
    using Join_ends [of "suffix_of CodeKind" "c_cache c" a] by auto
  obtain p2 where 2: "Join (c_cache c) (b @ suffix_of MapKind) = p2 @ suffix_of MapKind"
    using Join_ends [of "suffix_of MapKind" "c_cache c" b] by auto
  from eq 1 2 have "p1 @ suffix_of CodeKind = p2 @ suffix_of MapKind"
    by (simp add: cache_path_def)
  then have "suffix_of CodeKind = suffix_of MapKind"
    by (subst (asm) append_eq_append_conv) simp_all
  then show False by simp
qed

lemma path_kind:
  "qr_path c l = cache_path c CodeKind (Number l)"
  "map_path c l = cache_path c MapKind (Number l)"
  by (simp_all add: qr_path_def map_path_def cache_path_def)

text \<open>
  C8. The path a lookup returns is a function of the cache directory, the kind and the
  identifier alone. Identifiers without a path separator never collide, within a kind or
  across the two kinds; and a code image path never equals a map image path, whatever the
  identifiers.
\<close>

theorem cache_path_determinism:
  "(fst (getQRCode e c l w) = Inr p \<longrightarrow> p = cache_path c CodeKind (Number l)) \<and>
   (fst (getMap e c l w) = Inr p \<longrightarrow> p = cache_path c MapKind (Number l)) \<and>
   (CHR ''/'' \<notin> set a \<longrightarrow> CHR ''/'' \<notin> set b \<longrightarrow> a \<noteq> b \<longrightarrow>
      cache_path c k a \<noteq> cache_path c k' b) \<and>
   cache_path c CodeKind a \<noteq> cache_path c MapKind b"
proof (intro conjI impI)
  assume "fst (getQRCode e c l w) = Inr p"
  then show "p = cache_path c CodeKind (Number l)"
    using getQRCode_path [of e c l w p "snd (getQRCode e c l w)"]
    by (simp add: prod_eq_iff path_kind)
next
  assume "fst (getMap e c l w) = Inr p"
  then show "p = cache_path c MapKind (Number l)"
    using getMap_path [of e c l w p "snd (getMap e c l w)"]
    by (simp add: prod_eq_iff path_kind)
next
  assume "CHR ''/'' \<notin> set a" "CHR ''/'' \<notin> set b" "a \<noteq> b"
  then show "cache_path c k a \<noteq> cache_path c k' b"
    using cache_path_plain_inj [of a b c k k'] by blast
next
  show "cache_path c CodeKind a \<noteq> cache_path c MapKind b"
    by (rule cache_path_kinds)
qed

theorem cache_path_determinism_witness:
  "CHR ''/'' \<notin> set ''A1'' \<and> CHR ''/'' \<notin> set ''B2'' \<and> ''A1'' \<noteq> ''B2'' \<and>
   cache_path ex_cfg CodeKind ''A1'' = ''cache/A1-qrc.png'' \<and>
   cache_path ex_cfg CodeKind ''B2'' = ''cache/B2-qrc.png'' \<and>
   cache_path ex_cfg CodeKind ''A1'' \<noteq> cache_path ex_cfg CodeKind ''B2'' \<and>
   cache_path ex_cfg CodeKind ''A1'' \<noteq> cache_path ex_cfg MapKind ''B2'' \<and>
   fst (getQRCode ex_env ex_cfg ex_A1 (ex_world ''ok'')) = Inr ''cache/A1-qrc.png'' \<and>
   ''cache/A1-qrc.png'' = cache_path ex_cfg CodeKind (Number ex_A1) \<and>
   fst (getMap ex_env ex_cfg ex_A1 (ex_world ''ok'')) = Inr ''cache/A1-map.png'' \<and>
   ''cache/A1-map.png'' = cache_path ex_cfg MapKind (Number ex_A1)"
proof -
  have s: "CHR ''/'' \<notin> set ''A1''" "CHR ''/'' \<notin> set ''B2''" "''A1'' \<noteq> ''B2''"
    by simp_all
  have q: "fst (getQRCode ex_env ex_cfg ex_A1 (ex_world ''ok'')) = Inr ''cache/A1-qrc.png''"
    by (simp add: getQRCode_def ex_defs run_defs ex_paths)
  have v: "cache_path ex_cfg CodeKind ''A1'' = ''cache/A1-qrc.png''"
    "cache_path ex_cfg CodeKind ''B2'' = ''cache/B2-qrc.png''"
    by (simp_all add: cache_path_def ex_cfg_def ex_paths)
  note t = cache_path_determinism [of ex_env ex_cfg ex_A1 "ex_world ''ok''"
      "''cache/A1-qrc.png''" "''A1''" "''B2''"]
  have m: "fst (getMap ex_env ex_cfg ex_A1 (ex_world ''ok'')) = Inr ''cache/A1-map.png''"
    by (simp add: getMap_def ex_defs run_defs ex_paths)
  from cache_path_determinism [of ex_env ex_cfg ex_A1 "ex_world ''ok''" "''cache/A1-map.png''"] m
  have 2: "''cache/A1-map.png'' = cache_path ex_cfg MapKind (Number ex_A1)"
    by blast
  from t [of CodeKind CodeKind] s q v m 2 show ?thesis
    by (metis t)
qed

text \<open>
  Identifiers with separators do collide: \<open>A1\<close> and \<open>./A1\<close> are distinct and get the
  same code image path and the same map image path.
\<close>

theorem cache_path_counterexample:
  "''A1'' \<noteq> ''./A1'' \<and>
   fst (getQRCode ex_env ex_cfg ex_A1 (ex_world ''ok'')) = Inr ''cache/A1-qrc.png'' \<and>
   fst (getQRCode ex_env ex_cfg (ex_A1\<lparr>Number := ''./A1''\<rparr>) (ex_world ''ok'')) =
     Inr ''cache/A1-qrc.png'' \<and>
   fst (getMap ex_env ex_cfg ex_A1 (ex_world ''ok'')) = Inr ''cache/A1-map.png'' \<and>
   fst (getMap ex_env ex_cfg (ex_A1\<lparr>Number := ''./A1''\<rparr>) (ex_world ''ok'')) =
     Inr ''cache/A1-map.png''"
  by (simp add: getQRCode_def getMap_def ex_defs run_defs Join_def Clean_def clean_step_def)

section \<open>Files that are fresh stay as they are\<close>

lemma fresh_files: "files w' q = files w q \<Longrightarrow> fresh c w' q = fresh c w q"
  by (simp add: fresh_def)

lemma getQRCode_reuse:
  "\<not> c_force c \<Longrightarrow> qr_path c l \<notin> denied w \<Longrightarrow> fresh c w (qr_path c l) \<Longrightarrow>
   getQRCode e c l w = (Inr (qr_path c l), w)"
  by (simp add: getQRCode_def qr_path_def [symmetric] Stat_Inr_fresh Let_def)

lemma getMap_reuse:
  "map_path c l \<notin> denied w \<Longrightarrow> fresh c w (map_path c l) \<Longrightarrow>
   getMap e c l w = (Inr (map_path c l), w)"
  by (simp add: getMap_def map_path_def [symmetric] Stat_Inr_fresh Let_def)

lemma getQRCode_regen:
  assumes "\<not> (qr_path c l \<notin> denied w \<and> fresh c w (qr_path c l)) \<or> c_force c"
    "fst (getQRCode e c l w) = Inr p"
  shows "files (snd (getQRCode e c l w)) =
      (files w)(qr_path c l \<mapsto> \<lparr>ModTime = stamp e (written w),
        body = QRPng (''geo:'' @ fmt_f e (Latitude l) @ '','' @ fmt_f e (Longitude l)) High 110\<rparr>)"
    and "denied (snd (getQRCode e c l w)) = denied w"
    and "written (snd (getQRCode e c l w)) = Suc (written w)"
  using assms
  by (rule_tac [!] getQRCode_cases [where e = e and c = c and l = l and w = w])
     (auto dest!: WriteFile_Some)

lemma getMap_regen:
  assumes "\<not> (map_path c l \<notin> denied w \<and> fresh c w (map_path c l))"
    "fst (getMap e c l w) = Inr p"
  shows "files (snd (getMap e c l w)) =
      (files w)(map_path c l \<mapsto> \<lparr>ModTime = stamp e (written w),
        body = MapPng (map_context e l)\<rparr>)"
    and "denied (snd (getMap e c l w)) = denied w"
    and "written (snd (getMap e c l w)) = Suc (written w)"
  using assms
  by (rule_tac [!] getMap_cases [where e = e and c = c and l = l and w = w])
     (auto dest!: WriteFile_Some)

lemma getQRCode_stable:
  shows "\<not> c_force c \<Longrightarrow> q \<notin> denied w \<Longrightarrow> fresh c w q \<Longrightarrow>
      files (snd (getQRCode e c l w)) q = files w q"
    and "denied (snd (getQRCode e c l w)) = denied w"
  by (rule getQRCode_cases [where e = e and c = c and l = l and w = w];
      auto dest!: WriteFile_Some)+

lemma getMap_stable:
  shows "q \<notin> denied w \<Longrightarrow> fresh c w q \<Longrightarrow> files (snd (getMap e c l w)) q = files w q"
    and "denied (snd (getMap e c l w)) = denied w"
  by (rule getMap_cases [where e = e and c = c and l = l and w = w];
      auto dest!: WriteFile_Some)+

lemma main_loop_stable:
  assumes "\<not> c_force c"
  shows "(q \<notin> denied w \<longrightarrow> fresh c w q \<longrightarrow> files (snd (main_loop e c locs pdf w)) q = files w q) \<and>
    denied (snd (main_loop e c locs pdf w)) = denied w"
proof (induction locs arbitrary: pdf w)
  case Nil
  show ?case by simp
next
  case (Cons l ls)
  obtain r1 w1 where q: "getQRCode e c l w = (r1, w1)"
    by (cases "getQRCode e c l w") simp
  obtain r2 w2 where m: "getMap e c l w1 = (r2, w2)"
    by (cases "getMap e c l w1") simp
  have d1: "denied w1 = denied w"
    using getQRCode_stable(2) [of e c l w] q by simp
  have d2: "denied w2 = denied w"
    using getMap_stable(2) [of e c l w1] m d1 by simp
  have f1: "files w1 q = files w q" if "q \<notin> denied w" "fresh c w q"
    using getQRCode_stable(1) [OF assms that, of e l] q by simp
  have f2: "files w2 q = files w q" if "q \<notin> denied w" "fresh c w q"
  proof -
    from that d1 fresh_files [OF f1 [OF that], of c] have "q \<notin> denied w1" "fresh c w1 q"
      by simp_all
    with getMap_stable(1) [of q w1 c e l] m f1 [OF that] show ?thesis by simp
  qed
  show ?case
  proof (cases r1)
    case (Inl err)
    with q d1 f1 show ?thesis by (simp add: Let_def)
  next
    case r1: (Inr p1)
    show ?thesis
    proof (cases r2)
      case (Inl err)
      with q m r1 d2 f2 show ?thesis by (simp add: Let_def)
    next
      case (Inr p2)
      let ?pdf = "draw_on (AddPage pdf) (compose e l p1 p2)"
      from Cons.IH [where pdf = ?pdf and w = w2] d2
      have "denied (snd (main_loop e c ls ?pdf w2)) = denied w"
        and "q \<notin> denied w \<Longrightarrow> fresh c w2 q \<Longrightarrow>
          files (snd (main_loop e c ls ?pdf w2)) q = files w2 q"
        by simp_all
      moreover have "fresh c w2 q" if "q \<notin> denied w" "fresh c w q"
        using fresh_files [OF f2 [OF that], of c] that(2) by simp
      ultimately show ?thesis
        using q m r1 Inr f2 by (simp add: Let_def)
    qed
  qed
qed

section \<open>Two records with one identifier\<close>

lemma duplicate_identifier_run:
  assumes same: "Number l2 = Number l1" and nf: "\<not> c_force c"
    and run: "fst (main_loop e c (l1 # mid @ l2 # later) pdf w) = Inr pdf'"
    and stale: "\<not> fresh c w (qr_path c l1)" "\<not> fresh c w (map_path c l1)"
    and stat: "qr_path c l1 \<notin> denied w" "map_path c l1 \<notin> denied w"
    and stamps: "c_cDate c < stamp e (written w)" "c_cDate c < stamp e (Suc (written w))"
  shows "qr_path c l2 = qr_path c l1 \<and> map_path c l2 = map_path c l1 \<and>
    getQRCode e c l2 (snd (main_loop e c (l1 # mid) pdf w)) =
      (Inr (qr_path c l1), snd (main_loop e c (l1 # mid) pdf w)) \<and>
    getMap e c l2 (snd (main_loop e c (l1 # mid) pdf w)) =
      (Inr (map_path c l1), snd (main_loop e c (l1 # mid) pdf w)) \<and>
    map_option body (files (snd (main_loop e c (l1 # mid) pdf w)) (qr_path c l1)) =
      Some (QRPng (''geo:'' @ fmt_f e (Latitude l1) @ '','' @ fmt_f e (Longitude l1)) High 110) \<and>
    map_option body (files (snd (main_loop e c (l1 # mid) pdf w)) (map_path c l1)) =
      Some (MapPng (map_context e l1)) \<and>
    map_option body (files (snd (main_loop e c (l1 # mid @ l2 # later) pdf w)) (qr_path c l1)) =
      Some (QRPng (''geo:'' @ fmt_f e (Latitude l1) @ '','' @ fmt_f e (Longitude l1)) High 110) \<and>
    map_option body (files (snd (main_loop e c (l1 # mid @ l2 # later) pdf w)) (map_path c l1)) =
      Some (MapPng (map_context e l1)) \<and>
    pdf' ! (length pdf + Suc (length mid)) = compose e l2 (qr_path c l1) (map_path c l1)"
proof -
  let ?qp = "qr_path c l1" and ?mp = "map_path c l1"
  let ?url = "''geo:'' @ fmt_f e (Latitude l1) @ '','' @ fmt_f e (Longitude l1)"
  define wm where "wm = snd (main_loop e c (l1 # mid) pdf w)"
  define w' where "w' = snd (main_loop e c (l1 # mid @ l2 # later) pdf w)"
  have paths: "qr_path c l2 = ?qp" "map_path c l2 = ?mp"
    using same by (simp_all add: qr_path_def map_path_def)
  have ne: "?qp \<noteq> ?mp"
    by (simp add: path_kind cache_path_kinds)
  \<comment> \<open>the loop up to the later record ended well\<close>
  have app: "main_loop e c (l1 # mid @ l2 # later) pdf w =
      (case main_loop e c (l1 # mid) pdf w of
         (Inl err, w1) \<Rightarrow> (Inl err, w1)
       | (Inr pdf1, w1) \<Rightarrow> main_loop e c (l2 # later) pdf1 w1)"
    using main_loop_append [of e c "l1 # mid" "l2 # later" pdf w]
    by (simp only: append_Cons)
  obtain r where x: "main_loop e c (l1 # mid) pdf w = (r, wm)"
    unfolding wm_def by (metis prod.collapse)
  from run have "fst (case (r, wm) of (Inl err, w1) \<Rightarrow> (Inl err, w1)
       | (Inr pdf1, w1) \<Rightarrow> main_loop e c (l2 # later) pdf1 w1) = Inr pdf'"
    unfolding app x .
  then obtain pdfm where r: "r = Inr pdfm"
    by (cases r) simp_all
  note m = x [unfolded r]
  \<comment> \<open>the two lookups of the first record\<close>
  obtain r1 w1 where q1: "getQRCode e c l1 w = (r1, w1)"
    by (metis prod.collapse)
  from m q1 obtain p1 where r1: "r1 = Inr p1"
    by (cases r1) (auto simp: Let_def)
  obtain r2 w2 where m1: "getMap e c l1 w1 = (r2, w2)"
    by (metis prod.collapse)
  from m q1 r1 m1 obtain p2 where r2: "r2 = Inr p2"
    by (cases r2) (auto simp: Let_def)
  from m q1 r1 m1 r2
  have mid: "wm = snd (main_loop e c mid (draw_on (AddPage pdf) (compose e l1 p1 p2)) w2)"
    by (simp add: Let_def)
  have w1: "files w1 = (files w)(?qp \<mapsto> \<lparr>ModTime = stamp e (written w), body = QRPng ?url High 110\<rparr>)"
    "denied w1 = denied w" "written w1 = Suc (written w)"
    using getQRCode_regen [where c = c and l = l1 and w = w and e = e and p = p1] stale(1) q1 r1
    by simp_all
  have st1: "\<not> (?mp \<notin> denied w1 \<and> fresh c w1 ?mp)"
    using stale(2) ne w1(1) by (simp add: fresh_def)
  have w2: "files w2 = (files w1)(?mp \<mapsto> \<lparr>ModTime = stamp e (written w1), body = MapPng (map_context e l1)\<rparr>)"
    "denied w2 = denied w1"
    using getMap_regen [where c = c and l = l1 and w = w1 and e = e and p = p2] st1 m1 r2
    by simp_all
  have b2: "map_option body (files w2 ?qp) = Some (QRPng ?url High 110)"
    "map_option body (files w2 ?mp) = Some (MapPng (map_context e l1))"
    using w1(1) w2(1) ne by simp_all
  have fr2: "fresh c w2 ?qp" "fresh c w2 ?mp" and d2: "?qp \<notin> denied w2" "?mp \<notin> denied w2"
    using w1 w2 ne stamps stat by (simp_all add: fresh_def After_def)
  \<comment> \<open>the records in between leave both files alone\<close>
  note s = main_loop_stable [OF nf, where w = w2 and e = e and locs = mid
      and pdf = "draw_on (AddPage pdf) (compose e l1 p1 p2)", folded mid]
  have fm: "files wm ?qp = files w2 ?qp" "files wm ?mp = files w2 ?mp"
    and dm: "denied wm = denied w2"
    using s [of ?qp] s [of ?mp] fr2 d2 by simp_all
  have frm: "fresh c wm ?qp" "fresh c wm ?mp"
    using fresh_files [OF fm(1), of c] fresh_files [OF fm(2), of c] fr2 by simp_all
  \<comment> \<open>the later record reuses them\<close>
  have q2: "getQRCode e c l2 wm = (Inr ?qp, wm)"
    using getQRCode_reuse [where c = c and l = l2 and w = wm and e = e] nf frm(1) d2(1) dm paths
    by simp
  have m2: "getMap e c l2 wm = (Inr ?mp, wm)"
    using getMap_reuse [where c = c and l = l2 and w = wm and e = e] frm(2) d2(2) dm paths
    by simp
  \<comment> \<open>and so do the records after it\<close>
  have "main_loop e c (l1 # mid @ l2 # later) pdf w = main_loop e c (l2 # later) pdfm wm"
    unfolding app m by simp
  then have fin: "w' = snd (main_loop e c later
      (draw_on (AddPage pdfm) (compose e l2 ?qp ?mp)) wm)"
    unfolding w'_def by (simp add: Let_def q2 m2)
  note s' = main_loop_stable [OF nf, where w = wm and e = e and locs = later
      and pdf = "draw_on (AddPage pdfm) (compose e l2 ?qp ?mp)", folded fin]
  have ff: "files w' ?qp = files wm ?qp" "files w' ?mp = files wm ?mp"
    using s' [of ?qp] s' [of ?mp] frm d2 dm by simp_all
  \<comment> \<open>the page of the later record\<close>
  have "main_loop e c (l1 # mid @ l2 # later) pdf w = (Inr pdf', w')"
    using run unfolding w'_def by (simp add: prod_eq_iff del: main_loop.simps)
  from main_loop_pages [OF this]
  have "pdf' ! (length pdf + Suc (length mid)) = page_of e c l2"
    by (simp add: nth_append)
  then have pg: "pdf' ! (length pdf + Suc (length mid)) = compose e l2 ?qp ?mp"
    by (simp add: page_of_def paths)
  from paths q2 m2 b2 fm ff pg show ?thesis
    unfolding wm_def w'_def by (simp del: main_loop.simps)
qed

lemma map_context_eq:
  "map_context e l =
     \<lparr>size_wh = (960, 770),
      markers = [NewMarker (LatLngFromDegrees (Latitude l) (Longitude l)) (0xff, 0, 0, 0xff) 32,
                 NewMarker (LatLngFromDegrees (f64 e ''19.89830'') (f64 e ''99.81805''))
                   (0, 0, 0xff, 0xff) 32],
      tileProvider = Some ThunderforestLandscape\<rparr>"
  by (simp add: map_context_def NewContext_def SetSize_def AddMarker_def SetTileProvider_def)

text \<open>
  C10. Two records with one identifier have the same two paths. Without the force flag,
  take a record, then any records, then a record with the same identifier, then any
  records, in a loop that ends well; let the images of the first record be written when
  its turn comes (not fresh, or not there) and let the file system stamp them strictly
  after the baseline, on paths that \<^verbatim>\<open>os.Stat\<close> can read. Then, when the later
  record's turn comes, its two lookups return those paths and leave the file system
  untouched; the files then hold the code image of the \<^verbatim>\<open>geo:\<close> text and the map
  image of the context with the marker made from the coordinates of the first record, and
  still do at the end; and the page of the later record, drawn with its own number, name
  and coordinates, places the images at those paths.
\<close>

theorem duplicate_identifier_reuses_images:
  assumes same: "Number l2 = Number l1" and nf: "\<not> c_force c"
    and run: "fst (main_loop e c (l1 # mid @ l2 # later) pdf w) = Inr pdf'"
    and stale: "\<not> fresh c w (qr_path c l1)" "\<not> fresh c w (map_path c l1)"
    and stat: "qr_path c l1 \<notin> denied w" "map_path c l1 \<notin> denied w"
    and stamps: "c_cDate c < stamp e (written w)" "c_cDate c < stamp e (Suc (written w))"
  shows "qr_path c l2 = qr_path c l1 \<and> map_path c l2 = map_path c l1 \<and>
    getQRCode e c l2 (snd (main_loop e c (l1 # mid) pdf w)) =
      (Inr (Join (c_cache c) (Number l1 @ ''-qrc.png'')),
       snd (main_loop e c (l1 # mid) pdf w)) \<and>
    getMap e c l2 (snd (main_loop e c (l1 # mid) pdf w)) =
      (Inr (Join (c_cache c) (Number l1 @ ''-map.png'')),
       snd (main_loop e c (l1 # mid) pdf w)) \<and>
    map_option body (files (snd (main_loop e c (l1 # mid) pdf w))
        (Join (c_cache c) (Number l1 @ ''-qrc.png''))) =
      Some (QRPng (''geo:'' @ fmt_f e (Latitude l1) @ '','' @ fmt_f e (Longitude l1)) High 110) \<and>
    map_option body (files (snd (main_loop e c (l1 # mid) pdf w))
        (Join (c_cache c) (Number l1 @ ''-map.png''))) =
      Some (MapPng
        \<lparr>size_wh = (960, 770),
         markers = [NewMarker (LatLngFromDegrees (Latitude l1) (Longitude l1))
                      (0xff, 0, 0, 0xff) 32,
                    NewMarker (LatLngFromDegrees (f64 e ''19.89830'') (f64 e ''99.81805''))
                      (0, 0, 0xff, 0xff) 32],
         tileProvider = Some ThunderforestLandscape\<rparr>) \<and>
    map_option body (files (snd (main_loop e c (l1 # mid @ l2 # later) pdf w))
        (Join (c_cache c) (Number l1 @ ''-qrc.png''))) =
      Some (QRPng (''geo:'' @ fmt_f e (Latitude l1) @ '','' @ fmt_f e (Longitude l1)) High 110) \<and>
    map_option body (files (snd (main_loop e c (l1 # mid @ l2 # later) pdf w))
        (Join (c_cache c) (Number l1 @ ''-map.png''))) =
      Some (MapPng
        \<lparr>size_wh = (960, 770),
         markers = [NewMarker (LatLngFromDegrees (Latitude l1) (Longitude l1))
                      (0xff, 0, 0, 0xff) 32,
                    NewMarker (LatLngFromDegrees (f64 e ''19.89830'') (f64 e ''99.81805''))
                      (0, 0, 0xff, 0xff) 32],
         tileProvider = Some ThunderforestLandscape\<rparr>) \<and>
    pdf' ! (length pdf + Suc (length mid)) =
      [TransformBegin, TransformRotate 90 5 100, SetFontSize 40, SetTextColor 0 0 0,
       Text (X 5) 110 (Number l2), SetFontSize 20,
       Text (XAfterWidth 9 (Number l2)) 110 (tr e (Name l2)),
       SetFontSize 15, SetTextColor 150 150 150,
       Text (X 5) 117 (fmt_f e (Latitude l2) @ '' N, '' @ fmt_f e (Longitude l2) @ '' E''),
       ImageOptions (Join (c_cache c) (Number l1 @ ''-qrc.png'')) 78 94 0 0, TransformEnd,
       ImageOptions (Join (c_cache c) (Number l1 @ ''-map.png'')) 25 5 0 95]"
  using duplicate_identifier_run [OF assms]
  by (simp add: map_context_eq compose_def pHeight_def qr_path_def map_path_def
      del: main_loop.simps)

theorem duplicate_identifier_reuses_images_witness:
  "Number ex_A1_again = Number ex_A1 \<and> Latitude ex_A1_again \<noteq> Latitude ex_A1 \<and>
   \<not> c_force (ex_cfg\<lparr>c_cDate := 10\<rparr>) \<and>
   fst (main_loop ex_env (ex_cfg\<lparr>c_cDate := 10\<rparr>) [ex_A1, ex_B2, ex_A1_again] [] (ex_world ''ok''))
     = Inr [page_of ex_env ex_cfg ex_A1, page_of ex_env ex_cfg ex_B2,
            page_of ex_env ex_cfg ex_A1_again] \<and>
   getQRCode ex_env (ex_cfg\<lparr>c_cDate := 10\<rparr>) ex_A1_again
       (snd (main_loop ex_env (ex_cfg\<lparr>c_cDate := 10\<rparr>) [ex_A1, ex_B2] [] (ex_world ''ok''))) =
     (Inr ''cache/A1-qrc.png'',
      snd (main_loop ex_env (ex_cfg\<lparr>c_cDate := 10\<rparr>) [ex_A1, ex_B2] [] (ex_world ''ok''))) \<and>
   getMap ex_env (ex_cfg\<lparr>c_cDate := 10\<rparr>) ex_A1_again
       (snd (main_loop ex_env (ex_cfg\<lparr>c_cDate := 10\<rparr>) [ex_A1, ex_B2] [] (ex_world ''ok''))) =
     (Inr ''cache/A1-map.png'',
      snd (main_loop ex_env (ex_cfg\<lparr>c_cDate := 10\<rparr>) [ex_A1, ex_B2] [] (ex_world ''ok''))) \<and>
   map_option body
     (files (snd (main_loop ex_env (ex_cfg\<lparr>c_cDate := 10\<rparr>) [ex_A1, ex_B2, ex_A1_again] []
                   (ex_world ''ok''))) ''cache/A1-qrc.png'') =
     Some (QRPng ''geo:19.900000,99.800000'' High 110) \<and>
   map_option body
     (files (snd (main_loop ex_env (ex_cfg\<lparr>c_cDate := 10\<rparr>) [ex_A1, ex_B2, ex_A1_again] []
                   (ex_world ''ok''))) ''cache/A1-map.png'') =
     Some (MapPng
        \<lparr>size_wh = (960, 770),
         markers = [NewMarker (LatLngFromDegrees ''19.900000'' ''99.800000'') (0xff, 0, 0, 0xff) 32,
                    NewMarker (LatLngFromDegrees ''19.89830'' ''99.81805'') (0, 0, 0xff, 0xff) 32],
         tileProvider = Some ThunderforestLandscape\<rparr>) \<and>
   page_of ex_env ex_cfg ex_A1_again =
     [TransformBegin, TransformRotate 90 5 100, SetFontSize 40, SetTextColor 0 0 0,
      Text (X 5) 110 ''A1'', SetFontSize 20, Text (XAfterWidth 9 ''A1'') 110 ''Again'',
      SetFontSize 15, SetTextColor 150 150 150,
      Text (X 5) 117 ''20.500000 N, 100.500000 E'',
      ImageOptions ''cache/A1-qrc.png'' 78 94 0 0, TransformEnd,
      ImageOptions ''cache/A1-map.png'' 25 5 0 95]"
proof -
  let ?c = "ex_cfg\<lparr>c_cDate := 10\<rparr>"
  let ?w = "ex_world ''ok''"
  let ?pages = "[page_of ex_env ex_cfg ex_A1, page_of ex_env ex_cfg ex_B2,
      page_of ex_env ex_cfg ex_A1_again]"
  have p: "qr_path ?c ex_A1 = ''cache/A1-qrc.png''" "map_path ?c ex_A1 = ''cache/A1-map.png''"
    by (simp_all add: qr_path_def map_path_def ex_defs ex_paths)
  have j: "Join (c_cache ?c) (Number ex_A1 @ ''-qrc.png'') = ''cache/A1-qrc.png''"
    "Join (c_cache ?c) (Number ex_A1 @ ''-map.png'') = ''cache/A1-map.png''"
    by (simp_all add: ex_defs ex_paths)
  have same: "Number ex_A1_again = Number ex_A1"
    and other: "Latitude ex_A1_again \<noteq> Latitude ex_A1"
    and nf: "\<not> c_force ?c"
    by (simp_all add: ex_A1_again_def ex_defs)
  have run: "fst (main_loop ex_env ?c ([ex_A1] @ [ex_B2] @ ex_A1_again # []) [] ?w) = Inr ?pages"
    by (simp add: getQRCode_def getMap_def page_of_def qr_path_def map_path_def
        ex_A1_again_def ex_B2_def ex_defs run_defs ex_paths)
  have stale: "\<not> fresh ?c ?w (qr_path ?c ex_A1)" "\<not> fresh ?c ?w (map_path ?c ex_A1)"
    unfolding p by (simp_all add: fresh_def ex_world_def)
  have stat: "qr_path ?c ex_A1 \<notin> denied ?w" "map_path ?c ex_A1 \<notin> denied ?w"
    by (simp_all add: ex_world_def)
  have stamps: "c_cDate ?c < stamp ex_env (written ?w)"
    "c_cDate ?c < stamp ex_env (Suc (written ?w))"
    by (simp_all add: ex_defs)
  have v: "fmt_f ex_env = (\<lambda>x. x)" "f64 ex_env = (\<lambda>x. x)" "tr ex_env = (\<lambda>s. s)"
    "Latitude ex_A1 = ''19.900000''" "Longitude ex_A1 = ''99.800000''"
    "Number ex_A1_again = ''A1''" "Name ex_A1_again = ''Again''"
    "Latitude ex_A1_again = ''20.500000''" "Longitude ex_A1_again = ''100.500000''"
    by (simp_all add: ex_defs ex_A1_again_def)
  have pg: "?pages ! (length ([] :: page list) + Suc (length [ex_B2])) =
      page_of ex_env ex_cfg ex_A1_again"
    by simp
  note t = duplicate_identifier_reuses_images [where ?l2.0 = ex_A1_again and ?l1.0 = ex_A1
      and c = ?c and e = ex_env and mid = "[ex_B2]" and later = "[]" and pdf = "[]"
      and w = ?w and pdf' = ?pages, unfolded j pg]
  from t same nf run stale stat stamps p
  have "getQRCode ex_env ?c ex_A1_again (snd (main_loop ex_env ?c [ex_A1, ex_B2] [] ?w)) =
     (Inr ''cache/A1-qrc.png'', snd (main_loop ex_env ?c [ex_A1, ex_B2] [] ?w)) \<and>
     getMap ex_env ?c ex_A1_again (snd (main_loop ex_env ?c [ex_A1, ex_B2] [] ?w)) =
     (Inr ''cache/A1-map.png'', snd (main_loop ex_env ?c [ex_A1, ex_B2] [] ?w)) \<and>
     map_option body
       (files (snd (main_loop ex_env ?c [ex_A1, ex_B2, ex_A1_again] [] ?w)) ''cache/A1-qrc.png'') =
       Some (QRPng ''geo:19.900000,99.800000'' High 110) \<and>
     map_option body
       (files (snd (main_loop ex_env ?c [ex_A1, ex_B2, ex_A1_again] [] ?w)) ''cache/A1-map.png'') =
       Some (MapPng
        \<lparr>size_wh = (960, 770),
         markers = [NewMarker (LatLngFromDegrees ''19.900000'' ''99.800000'') (0xff, 0, 0, 0xff) 32,
                    NewMarker (LatLngFromDegrees ''19.89830'' ''99.81805'') (0, 0, 0xff, 0xff) 32],
         tileProvider = Some ThunderforestLandscape\<rparr>) \<and>
     page_of ex_env ex_cfg ex_A1_again =
       [TransformBegin, TransformRotate 90 5 100, SetFontSize 40, SetTextColor 0 0 0,
        Text (X 5) 110 ''A1'', SetFontSize 20, Text (XAfterWidth 9 ''A1'') 110 ''Again'',
        SetFontSize 15, SetTextColor 150 150 150,
        Text (X 5) 117 ''20.500000 N, 100.500000 E'',
        ImageOptions ''cache/A1-qrc.png'' 78 94 0 0, TransformEnd,
        ImageOptions ''cache/A1-map.png'' 25 5 0 95]"
    by (simp add: v del: main_loop.simps)
  with same other nf run show ?thesis
    by (simp del: main_loop.simps)
qed

text \<open>
  When the file system gives the new files the very time the input has, the images written
  for the first \<open>A1\<close> are not strictly after the baseline: the lookups of the later
  \<open>A1\<close> write both files again, and the run leaves the images made from the coordinates
  of the later record.
\<close>

theorem duplicate_identifier_counterexample:
  "Number ex_A1_again = Number ex_A1 \<and> \<not> c_force ex_cfg \<and>
   map_option ModTime (files (ex_world ''ok'') ''in.csv'') = Some 10 \<and>
   UnmarshalFile ex_env_same_tick (Csv ''ok'') = Some [ex_A1, ex_B2, ex_A1_again] \<and>
   fst (main ex_env_same_tick ex_cfg (ex_world ''ok'')) = Inr () \<and>
   map_option body
     (files (snd (main_loop ex_env_same_tick (ex_cfg\<lparr>c_cDate := 10\<rparr>) [ex_A1, ex_B2] []
                   (ex_world ''ok''))) ''cache/A1-qrc.png'') =
     Some (QRPng ''geo:19.900000,99.800000'' High 110) \<and>
   map_option body
     (files (snd (getQRCode ex_env_same_tick (ex_cfg\<lparr>c_cDate := 10\<rparr>) ex_A1_again
                   (snd (main_loop ex_env_same_tick (ex_cfg\<lparr>c_cDate := 10\<rparr>) [ex_A1, ex_B2] []
                          (ex_world ''ok''))))) ''cache/A1-qrc.png'') =
     Some (QRPng ''geo:20.500000,100.500000'' High 110) \<and>
   files (snd (main ex_env_same_tick ex_cfg (ex_world ''ok''))) ''cache/A1-qrc.png'' =
     Some \<lparr>ModTime = 10, body = QRPng ''geo:20.500000,100.500000'' High 110\<rparr> \<and>
   files (snd (main ex_env_same_tick ex_cfg (ex_world ''ok''))) ''cache/A1-map.png'' =
     Some \<lparr>ModTime = 10, body = MapPng
        \<lparr>size_wh = (960, 770),
         markers = [NewMarker (LatLngFromDegrees ''20.500000'' ''100.500000'') (0xff, 0, 0, 0xff) 32,
                    NewMarker (LatLngFromDegrees ''19.89830'' ''99.81805'') (0, 0, 0xff, 0xff) 32],
         tileProvider = Some ThunderforestLandscape\<rparr>\<rparr>"
  by (simp add: main_def getQRCode_def getMap_def compose_def map_context_eq
      ex_env_same_tick_def ex_A1_again_def ex_B2_def ex_defs run_defs ex_paths)

section \<open>The text of the code image\<close>

lemma getQRCode_writes:
  assumes "fst (getQRCode e c l w) = Inr p"
    "\<not> (qr_path c l \<notin> denied w \<and> fresh c w (qr_path c l)) \<or> c_force c"
  shows "p = cache_path c CodeKind (Number l) \<and>
    files (snd (getQRCode e c l w)) p =
      Some \<lparr>ModTime = stamp e (written w),
        body = QRPng (''geo:'' @ fmt_f e (Latitude l) @ '','' @ fmt_f e (Longitude l)) High 110\<rparr>"
proof -
  have "p = qr_path c l"
    using assms(1) getQRCode_path [of e c l w p "snd (getQRCode e c l w)"]
    by (simp add: prod_eq_iff)
  with getQRCode_regen(1) [OF assms(2,1)] show ?thesis
    by (simp add: path_kind)
qed

text \<open>
  C7. The older code image function formats the two floats with the string verb. For the
  record \<open>A1\<close> at (19.9, 99.8) on an empty cache the file it writes under the code path
  holds the image of a text that is no \<^verbatim>\<open>geo:\<close> URI of the coordinates, at level
  medium and 100 pixels; the current function on the same input writes the image of
  \<^verbatim>\<open>geo:19.900000,99.800000\<close> at level high and 110 pixels.
\<close>

theorem old_code_image_text:
  "fst (getQRCode_old ex_env (ex_cfg\<lparr>c_cDate := 10\<rparr>) ex_A1 (ex_world ''ok'')) =
     Inr ''cache/A1-qrc.png'' \<and>
   map_option body
     (files (snd (getQRCode_old ex_env (ex_cfg\<lparr>c_cDate := 10\<rparr>) ex_A1 (ex_world ''ok'')))
        ''cache/A1-qrc.png'') =
     Some (QRPng ''geo://%!s(float64=19.9),%!s(float64=99.8)'' Medium 100) \<and>
   fst (getQRCode ex_env (ex_cfg\<lparr>c_cDate := 10\<rparr>) ex_A1 (ex_world ''ok'')) =
     Inr ''cache/A1-qrc.png'' \<and>
   map_option body
     (files (snd (getQRCode ex_env (ex_cfg\<lparr>c_cDate := 10\<rparr>) ex_A1 (ex_world ''ok'')))
        ''cache/A1-qrc.png'') =
     Some (QRPng ''geo:19.900000,99.800000'' High 110)"
  by (simp add: getQRCode_old_def getQRCode_def bad_verb_s_def ex_defs run_defs ex_paths)

end
